theory Spec2Isabelle
  imports Complex_Main
begin

section \<open>The XY value plot of nengo\_gui (xyvalue.js)\<close>

text \<open>
  A shallow embedding of \<^verbatim>\<open>nengo_gui/static/components/xyvalue.js\<close>: the component
  \<^verbatim>\<open>Nengo.XYValue\<close> that plots two of the dimensions of a streamed signal against each
  other. Every method of the component is a function from the component's state to an
  outcome: the state it leaves, and whether it returned or threw.
\<close>

subsection \<open>JavaScript values\<close>

text \<open>
  A JavaScript number is a finite value or \<^verbatim>\<open>NaN\<close>. Finite doubles are read as reals;
  the infinities are not values of this model. Every comparison with \<^verbatim>\<open>NaN\<close> is false,
  and arithmetic on \<^verbatim>\<open>NaN\<close> gives \<^verbatim>\<open>NaN\<close>.
\<close>

datatype jsnum = Fin real | NaN

fun js_less :: "jsnum \<Rightarrow> jsnum \<Rightarrow> bool" where
  "js_less (Fin a) (Fin b) = (a < b)"
| "js_less _ _ = False"

fun js_le :: "jsnum \<Rightarrow> jsnum \<Rightarrow> bool" where
  "js_le (Fin a) (Fin b) = (a \<le> b)"
| "js_le _ _ = False"

fun js_ge :: "jsnum \<Rightarrow> jsnum \<Rightarrow> bool" where
  "js_ge (Fin a) (Fin b) = (a \<ge> b)"
| "js_ge _ _ = False"

fun js_eq :: "jsnum \<Rightarrow> jsnum \<Rightarrow> bool" where
  "js_eq (Fin a) (Fin b) = (a = b)"
| "js_eq _ _ = False"

text \<open>
  The product of two doubles is the exact product rounded to the nearest double. A
  product of magnitude up to \<open>2\<^sup>-\<^sup>1\<^sup>0\<^sup>7\<^sup>5\<close>, half the smallest double, is rounded to zero;
  any other product is rounded to a double of its own sign (an overflow to an infinity of
  that sign). The model keeps the exact product there, so \<open>js_mult\<close> compares with zero
  as the double product does.
\<close>

fun js_mult :: "jsnum \<Rightarrow> jsnum \<Rightarrow> jsnum" where
  "js_mult (Fin a) (Fin b) = Fin (if \<bar>a * b\<bar> \<le> 1 / 2 ^ 1075 then 0 else a * b)"
| "js_mult _ _ = NaN"

text \<open>The integer part of a number: the number truncated towards zero.\<close>

definition js_trunc :: "real \<Rightarrow> real" where
  "js_trunc r = (if 0 \<le> r then of_int \<lfloor>r\<rfloor> else of_int \<lceil>r\<rceil>)"

text \<open>
  \<^verbatim>\<open>parseInt\<close> of a number prints the number and reads the leading integer of the print.
  A magnitude from \<open>10\<^sup>-\<^sup>6\<close> up to \<open>10\<^sup>2\<^sup>1\<close> prints in decimal notation, and the integer read
  is the number truncated towards zero. Any other magnitude but zero prints in exponent
  notation, and the integer read is the digit in front of the mantissa's point, with the
  sign: \<^verbatim>\<open>parseInt(1e-7)\<close> is \<open>1\<close>. The digit is taken from the value; the shortest print
  that JavaScript chooses can round a mantissa of nines up to the digit \<open>1\<close>, and either
  way the integer read is from \<open>1\<close> to \<open>9\<close> in magnitude.
\<close>

fun parseInt_num :: "jsnum \<Rightarrow> jsnum" where
  "parseInt_num (Fin r) =
     Fin (if r = 0 then 0
          else if 1 / 10 ^ 6 \<le> \<bar>r\<bar> \<and> \<bar>r\<bar> < 10 ^ 21 then js_trunc r
          else sgn r * of_int \<lfloor>\<bar>r\<bar> / 10 powr of_int \<lfloor>log 10 \<bar>r\<bar>\<rfloor>\<rfloor>)"
| "parseInt_num NaN = NaN"

text \<open>
  Reading \<^verbatim>\<open>arr[i]\<close>: the element when \<open>i\<close> is an integer inside the array,
  \<^verbatim>\<open>undefined\<close> (here \<open>None\<close>) otherwise.
\<close>

fun js_index :: "'a list \<Rightarrow> jsnum \<Rightarrow> 'a option" where
  "js_index xs (Fin r) =
     (if r = of_int \<lfloor>r\<rfloor> \<and> 0 \<le> r \<and> r < of_nat (length xs)
      then Some (xs ! nat \<lfloor>r\<rfloor>) else None)"
| "js_index xs NaN = None"

definition nth_opt :: "'a list \<Rightarrow> nat \<Rightarrow> 'a option" where
  "nth_opt xs i = (if i < length xs then Some (xs ! i) else None)"

text \<open>
  The dialogs read a text, split it at the commas and hand every piece to the conversions
  of JavaScript and jQuery. A piece is modelled by what the four conversions used in the
  source make of it; the conversions themselves belong to the language and to jQuery and
  are parameters here. \<open>plain r\<close> is a piece in plain decimal notation that reads as the
  number \<open>r\<close>, and \<open>js_undefined\<close> is what \<^verbatim>\<open>nums[k]\<close> gives beyond the last piece.
\<close>

record js_text =
  isNumeric :: bool
  Number :: jsnum
  parseFloat :: jsnum
  parseInt :: jsnum

definition plain :: "real \<Rightarrow> js_text" where
  "plain r = \<lparr>isNumeric = True, Number = Fin r, parseFloat = Fin r,
              parseInt = Fin (js_trunc r)\<rparr>"

text \<open>
  Three pieces that the conversions read differently. The text \<^verbatim>\<open>0x10\<close>:
  \<^verbatim>\<open>$.isNumeric\<close> accepts it, \<^verbatim>\<open>Number\<close> and \<^verbatim>\<open>parseInt\<close> read the hexadecimal \<open>16\<close>,
  \<^verbatim>\<open>parseFloat\<close> stops at the \<^verbatim>\<open>x\<close> and reads \<open>0\<close>. The empty text: \<^verbatim>\<open>Number\<close> reads \<open>0\<close>,
  \<^verbatim>\<open>parseFloat\<close> and \<^verbatim>\<open>parseInt\<close> read \<^verbatim>\<open>NaN\<close>. The text \<^verbatim>\<open>10e-1\<close>: \<^verbatim>\<open>Number\<close> and
  \<^verbatim>\<open>parseFloat\<close> read \<open>1\<close>, \<^verbatim>\<open>parseInt\<close> stops at the \<^verbatim>\<open>e\<close> and reads \<open>10\<close>.
\<close>

definition hex_piece :: js_text where
  "hex_piece = \<lparr>isNumeric = True, Number = Fin 16, parseFloat = Fin 0, parseInt = Fin 16\<rparr>"

definition empty_piece :: js_text where
  "empty_piece = \<lparr>isNumeric = False, Number = Fin 0, parseFloat = NaN, parseInt = NaN\<rparr>"

definition exponent_piece :: js_text where
  "exponent_piece = \<lparr>isNumeric = True, Number = Fin 1, parseFloat = Fin 1, parseInt = Fin 10\<rparr>"

definition js_undefined :: js_text where
  "js_undefined = \<lparr>isNumeric = False, Number = NaN, parseFloat = NaN, parseInt = NaN\<rparr>"

definition piece :: "js_text list \<Rightarrow> nat \<Rightarrow> js_text" where
  "piece nums k = (case nth_opt nums k of Some f \<Rightarrow> f | None \<Rightarrow> js_undefined)"

text \<open>
  A method either returns or throws a \<^verbatim>\<open>TypeError\<close> (reading a property of
  \<^verbatim>\<open>undefined\<close>); a throw leaves the object as it was mutated up to that point.
\<close>

datatype 'a outcome = Returned 'a | Threw 'a

fun state_of :: "'a outcome \<Rightarrow> 'a" where
  "state_of (Returned s) = s"
| "state_of (Threw s) = s"

fun returned :: "'a outcome \<Rightarrow> bool" where
  "returned (Returned s) = True"
| "returned (Threw s) = False"

fun and_then :: "'a outcome \<Rightarrow> ('a \<Rightarrow> 'a outcome) \<Rightarrow> 'a outcome" where
  "and_then (Returned s) f = f s"
| "and_then (Threw s) f = Threw s"

subsection \<open>The collaborators the component consumes\<close>

text \<open>
  The simulation control: the window of simulation time on display and the current time.
\<close>

record sim_control =
  window_start :: real
  window_end :: real
  sim_time :: real

definition in_window :: "sim_control \<Rightarrow> real \<Rightarrow> bool" where
  "in_window sc t = (window_start sc \<le> t \<and> t \<le> window_end sc)"

text \<open>
  The data store, as the source reads it: \<^verbatim>\<open>data_store.data\<close> is one array per
  dimension (\<^verbatim>\<open>data[index][i]\<close>), and the samples carry time stamps.
\<close>

record data_store =
  data :: "real list list"
  stamps :: "real list"

text \<open>The elements of one dimension whose time stamp satisfies \<open>P\<close>.\<close>

fun shown_of :: "(real \<Rightarrow> bool) \<Rightarrow> real list \<Rightarrow> 'a list \<Rightarrow> 'a list" where
  "shown_of P (t # ts) (x # xs) = (if P t then x # shown_of P ts xs else shown_of P ts xs)"
| "shown_of P _ _ = []"

text \<open>
  Modelled from the spec: the constructor of \<^verbatim>\<open>Nengo.DataStore\<close> (datastore.js is not among
  the sources): a stream of \<open>dims\<close>-dimensional samples, empty at first.
\<close>

definition DataStore :: "nat \<Rightarrow> data_store" where
  "DataStore dims = \<lparr>data = replicate dims [], stamps = []\<rparr>"

text \<open>
  Modelled from the spec: \<^verbatim>\<open>Nengo.DataStore.prototype.push\<close>, the store's
  \<^verbatim>\<open>append(sample)\<close>: one value more in every dimension, stamped with the simulation time;
  a frame of another length than the dimension count is discarded.
\<close>

definition push :: "sim_control \<Rightarrow> real list \<Rightarrow> data_store \<Rightarrow> data_store" where
  "push sc row ds =
     (if length row = length (data ds)
      then \<lparr>data = map (\<lambda>(d, v). d @ [v]) (zip (data ds) row),
            stamps = stamps ds @ [sim_time sc]\<rparr>
      else ds)"

text \<open>
  Modelled from the spec: \<^verbatim>\<open>Nengo.DataStore.prototype.update\<close>, the store's
  \<^verbatim>\<open>evict_outside_window\<close>: the samples outside the display window are discarded.
\<close>

definition store_update :: "sim_control \<Rightarrow> data_store \<Rightarrow> data_store" where
  "store_update sc ds =
     \<lparr>data = map (shown_of (in_window sc) (stamps ds)) (data ds),
      stamps = filter (in_window sc) (stamps ds)\<rparr>"

text \<open>
  Modelled from the spec: \<^verbatim>\<open>Nengo.DataStore.prototype.get_shown_data\<close>, the store's
  \<^verbatim>\<open>snapshot()\<close>: per dimension, the samples of the window in order.
\<close>

definition get_shown_data :: "sim_control \<Rightarrow> data_store \<Rightarrow> real list list" where
  "get_shown_data sc ds = map (shown_of (in_window sc) (stamps ds)) (data ds)"

text \<open>
  Modelled from the spec: \<^verbatim>\<open>Nengo.DataStore.prototype.reset\<close>, the store's
  \<^verbatim>\<open>clear()\<close>: the stream is discarded, the dimension count stays.
\<close>

definition store_reset :: "data_store \<Rightarrow> data_store" where
  "store_reset ds = \<lparr>data = map (\<lambda>d. []) (data ds), stamps = []\<rparr>"

text \<open>
  A linear scale of d3 maps its domain onto its pixel range; a domain of one point maps
  everything to the start of the range, and \<^verbatim>\<open>undefined\<close> or a \<^verbatim>\<open>NaN\<close> bound gives
  \<^verbatim>\<open>NaN\<close>.
\<close>

record scale =
  scale_domain :: "jsnum \<times> jsnum"
  scale_range :: "real \<times> real"

fun apply_scale :: "scale \<Rightarrow> real option \<Rightarrow> jsnum" where
  "apply_scale sc None = NaN"
| "apply_scale sc (Some v) =
     (case scale_domain sc of
        (Fin d0, Fin d1) \<Rightarrow>
          (case scale_range sc of (r0, r1) \<Rightarrow>
             Fin (if d1 = d0 then r0 else r0 + (v - d0) / (d1 - d0) * (r1 - r0)))
      | _ \<Rightarrow> NaN)"

text \<open>
  The axes (\<^verbatim>\<open>Nengo.XYAxes\<close>, not among the sources), with the fields the component reads
  and writes. How the axes place their pixel ranges in a viewport is their own business
  and is carried as the field \<open>ax_geometry\<close>.
\<close>

record xy_axes =
  min_val :: jsnum
  max_val :: jsnum
  scale_x :: scale
  scale_y :: scale
  axis_x_tickValues :: "jsnum list"
  axis_y_tickValues :: "jsnum list"
  ax_geometry :: "real \<Rightarrow> real \<Rightarrow> (real \<times> real) \<times> (real \<times> real)"

text \<open>
  Modelled from the spec: \<^verbatim>\<open>Nengo.XYAxes.prototype.on_resize\<close>, the axes'
  \<^verbatim>\<open>resize(width, height)\<close>: the pixel mapping of both scales is updated; the domains stay.
\<close>

definition axes_on_resize :: "real \<Rightarrow> real \<Rightarrow> xy_axes \<Rightarrow> xy_axes" where
  "axes_on_resize w h ax =
     (case ax_geometry ax w h of (rx, ry) \<Rightarrow>
        ax\<lparr>scale_x := (scale_x ax)\<lparr>scale_range := rx\<rparr>,
           scale_y := (scale_y ax)\<lparr>scale_range := ry\<rparr>\<rparr>)"

subsection \<open>The component's state\<close>

text \<open>
  The rectangle of the warning label. \<^verbatim>\<open>update\<close> appends it with a position only;
  \<^verbatim>\<open>on_resize\<close> gives it a size.
\<close>

record rect =
  rect_x :: real
  rect_y :: real
  rect_width :: "real option"
  rect_height :: "real option"

record circle =
  circle_r :: real
  circle_cx :: jsnum
  circle_cy :: jsnum

text \<open>
  The persisted configuration (\<^verbatim>\<open>layout_info\<close>, \<^verbatim>\<open>update_layout\<close>): the four fields this
  component adds to its base class's record.
\<close>

record layout =
  min_value :: jsnum
  max_value :: jsnum
  cfg_index_x :: jsnum
  cfg_index_y :: jsnum

text \<open>
  The fields of \<^verbatim>\<open>Nengo.XYValue\<close>. \<open>path_d\<close> is the \<^verbatim>\<open>d\<close> attribute of the path, the
  list of its pixel points (empty while no path has been drawn); \<open>warning_label\<close> is the
  list of the children of the label's group. Of the base class \<^verbatim>\<open>Nengo.Component\<close>
  (not among the sources) the state keeps what this file reads and writes: the size, the
  viewport size that \<^verbatim>\<open>get_screen_width()\<close> and \<^verbatim>\<open>get_screen_height()\<close> report, the
  pending redraw that \<^verbatim>\<open>schedule_update()\<close> marks, and the configuration that
  \<^verbatim>\<open>save_layout()\<close> persisted last.
\<close>

record xyvalue =
  n_lines :: nat
  sim :: sim_control
  data_store :: data_store
  axes2d :: xy_axes
  index_x :: jsnum
  index_y :: jsnum
  path_d :: "(jsnum \<times> jsnum) list"
  recent_circle :: circle
  warning_label :: "rect list"
  invalid_dims :: bool
  width :: real
  height :: real
  label_width :: real
  div_width :: real
  div_height :: real
  screen_width :: real
  screen_height :: real
  pending_update :: bool
  persisted :: "layout option"

subsection \<open>Receiving data and redrawing\<close>

text \<open>
  Modelled from the spec: \<^verbatim>\<open>Nengo.Component.prototype.schedule_update\<close>: a redraw is
  marked as pending, nothing is rendered.
\<close>

definition schedule_update :: "xyvalue \<Rightarrow> xyvalue" where
  "schedule_update s = s\<lparr>pending_update := True\<rparr>"

text \<open>\<^verbatim>\<open>on_message\<close> (lines 72-76): the frame goes to the store and a redraw is scheduled.\<close>

definition on_message :: "real list \<Rightarrow> xyvalue \<Rightarrow> xyvalue" where
  "on_message frame s =
     schedule_update (s\<lparr>data_store := push (sim s) frame (data_store s)\<rparr>)"

text \<open>
  The line generator of lines 95-100 applied to the data \<open>ys\<close>: the point \<open>i\<close> is
  \<^verbatim>\<open>scale_x(shown_data[index_x][i])\<close>, \<^verbatim>\<open>scale_y(d)\<close>.
\<close>

definition line :: "xy_axes \<Rightarrow> real list \<Rightarrow> real list \<Rightarrow> (jsnum \<times> jsnum) list" where
  "line ax xs ys =
     map (\<lambda>i. (apply_scale (scale_x ax) (nth_opt xs i),
               apply_scale (scale_y ax) (Some (ys ! i)))) [0..<length ys]"

text \<open>
  Lines 112-117. \<^verbatim>\<open>warning_label\<close> is a d3 selection, not a DOM node: it has no
  \<^verbatim>\<open>lastChild\<close>, so the loop of lines 113-115 never runs and only the flag is cleared.
\<close>

definition clear_invalid :: "xyvalue \<Rightarrow> xyvalue" where
  "clear_invalid s = (if invalid_dims s then s\<lparr>invalid_dims := False\<rparr> else s)"

text \<open>\<^verbatim>\<open>update\<close> (lines 81-132).\<close>

definition update :: "xyvalue \<Rightarrow> xyvalue outcome" where
  "update s0 =
     (let s = s0\<lparr>data_store := store_update (sim s0) (data_store s0)\<rparr> in
      if length (data (data_store s)) > 1 then
        (let shown_data = get_shown_data (sim s) (data_store s) in
         case js_index shown_data (index_x s) of
           None \<Rightarrow> Threw s
         | Some xs \<Rightarrow>
             (let last_index = int (length xs) - 1 in
              if last_index \<ge> 0 then
                (case js_index shown_data (index_y s) of
                   None \<Rightarrow> Threw s
                 | Some ys \<Rightarrow>
                     Returned (clear_invalid
                       (s\<lparr>path_d := line (axes2d s) xs ys,
                          recent_circle := (recent_circle s)
                            \<lparr>circle_cx := apply_scale (scale_x (axes2d s))
                                            (nth_opt xs (nat last_index)),
                             circle_cy := apply_scale (scale_y (axes2d s))
                                            (nth_opt ys (nat last_index))\<rparr>\<rparr>)))
              else Returned (clear_invalid s)))
      else if invalid_dims s = False then
        Returned (s\<lparr>invalid_dims := True,
                    warning_label := warning_label s @
                      [\<lparr>rect_x = 50, rect_y = 50, rect_width = None, rect_height = None\<rparr>]\<rparr>)
      else Returned s)"

text \<open>\<^verbatim>\<open>get_circle_radius\<close> (lines 157-159).\<close>

definition get_circle_radius :: "xyvalue \<Rightarrow> real" where
  "get_circle_radius s = min (width s) (height s) / 30"

text \<open>
  \<^verbatim>\<open>warning_label.select("rect")\<close> sets the size of the first rectangle of the label; no
  text is ever appended to the label, so \<^verbatim>\<open>selectAll("text")\<close> selects nothing.
\<close>

fun resize_label :: "real \<Rightarrow> real \<Rightarrow> rect list \<Rightarrow> rect list" where
  "resize_label w h [] = []"
| "resize_label w h (r # rs) =
     r\<lparr>rect_width := Some (w - 100), rect_height := Some (h - 100)\<rparr> # rs"

text \<open>\<^verbatim>\<open>on_resize\<close> (lines 137-155).\<close>

definition on_resize :: "real \<Rightarrow> real \<Rightarrow> xyvalue \<Rightarrow> xyvalue outcome" where
  "on_resize w h s0 =
     and_then (update (s0\<lparr>axes2d := axes_on_resize w h (axes2d s0)\<rparr>))
       (\<lambda>s1. let s2 = s1\<lparr>label_width := w, width := w, height := h,
                          div_width := w, div_height := h\<rparr> in
             Returned (s2\<lparr>recent_circle :=
                            (recent_circle s2)\<lparr>circle_r := get_circle_radius s2\<rparr>,
                          warning_label := resize_label w h (warning_label s2)\<rparr>))"

subsection \<open>The configuration\<close>

text \<open>\<^verbatim>\<open>layout_info\<close> (lines 172-179).\<close>

definition layout_info :: "xyvalue \<Rightarrow> layout" where
  "layout_info s =
     \<lparr>min_value = fst (scale_domain (scale_y (axes2d s))),
      max_value = snd (scale_domain (scale_y (axes2d s))),
      cfg_index_x = index_x s,
      cfg_index_y = index_y s\<rparr>"

text \<open>
  Modelled from the spec: \<^verbatim>\<open>Nengo.Component.prototype.save_layout\<close>: the configuration is
  handed to the persistence.
\<close>

definition save_layout :: "xyvalue \<Rightarrow> xyvalue" where
  "save_layout s = s\<lparr>persisted := Some (layout_info s)\<rparr>"

text \<open>
  Modelled from the spec: \<^verbatim>\<open>Nengo.Component.prototype.update_layout\<close>: the persisted record
  has the four fields that this component applies itself, and the base class finds
  nothing more in it.
\<close>

definition Component_update_layout :: "layout \<Rightarrow> xyvalue \<Rightarrow> xyvalue outcome" where
  "Component_update_layout config s = Returned s"

text \<open>\<^verbatim>\<open>update_range\<close> (lines 234-244).\<close>

definition update_range :: "jsnum \<Rightarrow> jsnum \<Rightarrow> xyvalue \<Rightarrow> xyvalue outcome" where
  "update_range mn mx s0 =
     (let ax = axes2d s0;
          s = s0\<lparr>axes2d := ax
                 \<lparr>min_val := mn, max_val := mx,
                  scale_x := (scale_x ax)\<lparr>scale_domain := (mn, mx)\<rparr>,
                  scale_y := (scale_y ax)\<lparr>scale_domain := (mn, mx)\<rparr>,
                  axis_x_tickValues := [mn, mx],
                  axis_y_tickValues := [mn, mx]\<rparr>\<rparr>
      in on_resize (screen_width s) (screen_height s) s)"

text \<open>\<^verbatim>\<open>update_indices\<close> (lines 286-290).\<close>

definition update_indices :: "jsnum \<Rightarrow> jsnum \<Rightarrow> xyvalue \<Rightarrow> xyvalue outcome" where
  "update_indices ix iy s = update (s\<lparr>index_x := ix, index_y := iy\<rparr>)"

text \<open>\<^verbatim>\<open>update_layout\<close> (lines 181-185).\<close>

definition update_layout :: "layout \<Rightarrow> xyvalue \<Rightarrow> xyvalue outcome" where
  "update_layout config s =
     and_then (update_indices (cfg_index_x config) (cfg_index_y config) s)
       (\<lambda>s1. and_then (update_range (min_value config) (max_value config) s1)
          (\<lambda>s2. Component_update_layout config s2))"

text \<open>\<^verbatim>\<open>reset\<close> (lines 292-295).\<close>

definition reset :: "xyvalue \<Rightarrow> xyvalue" where
  "reset s = schedule_update (s\<lparr>data_store := store_reset (data_store s)\<rparr>)"

subsection \<open>The dialogs\<close>

text \<open>
  The validator of the range dialog (lines 212-225), on the pieces of the text split at
  the commas.
\<close>

definition range_validator :: "js_text list \<Rightarrow> bool" where
  "range_validator nums =
     (let valid =
        (if isNumeric (piece nums 0) \<and> isNumeric (piece nums 1) then
           (let ordered = js_less (Number (piece nums 0)) (Number (piece nums 1));
                zeroed = js_le (js_mult (Number (piece nums 0)) (Number (piece nums 1)))
                               (Fin 0)
            in if ordered \<and> zeroed then True else False)
         else False)
      in length nums = 2 \<and> valid)"

text \<open>
  \<^verbatim>\<open>set_range\<close> (lines 187-232), when the dialog is confirmed with a text of the pieces
  \<open>nums\<close>: the form's validator runs \<open>range_validator\<close>, and the handler returns at once
  when it reports an error. The value of a text input is a string, never \<^verbatim>\<open>null\<close>.
\<close>

definition set_range :: "js_text list \<Rightarrow> xyvalue \<Rightarrow> xyvalue outcome" where
  "set_range new_range s =
     (if \<not> range_validator new_range then Returned s
      else
        (let mn = parseFloat (piece new_range 0);
             mx = parseFloat (piece new_range 1)
         in and_then (update_range mn mx s)
              (\<lambda>s1. and_then (update s1) (\<lambda>s2. Returned (save_layout s2)))))"

text \<open>
  The validator of the indices dialog (lines 268-275). The loose equality of a number
  with a piece of text compares with the piece as \<^verbatim>\<open>Number\<close> reads it.
\<close>

definition indices_validator :: "nat \<Rightarrow> js_text list \<Rightarrow> bool" where
  "indices_validator n nums =
     (js_eq (parseInt_num (Number (piece nums 0))) (Number (piece nums 0)) \<and>
      js_eq (parseInt_num (Number (piece nums 1))) (Number (piece nums 1)) \<and>
      length nums = 2 \<and>
      (js_less (Number (piece nums 1)) (Fin (of_nat n)) \<and>
       js_ge (Number (piece nums 1)) (Fin 0)) \<and>
      (js_less (Number (piece nums 0)) (Fin (of_nat n)) \<and>
       js_ge (Number (piece nums 0)) (Fin 0)))"

text \<open>\<^verbatim>\<open>set_indices\<close> (lines 246-284), when the dialog is confirmed.\<close>

definition set_indices :: "js_text list \<Rightarrow> xyvalue \<Rightarrow> xyvalue outcome" where
  "set_indices new_indices s =
     (if \<not> indices_validator (n_lines s) new_indices then Returned s
      else
        and_then (update_indices (parseInt (piece new_indices 0))
                                 (parseInt (piece new_indices 1)) s)
          (\<lambda>s1. Returned (save_layout s1)))"

subsection \<open>The constructor and the states a component can be in\<close>

text \<open>
  The arguments the constructor reads itself; \<open>arg_n_lines\<close> is \<open>0\<close> when
  \<^verbatim>\<open>args.n_lines\<close> is absent.
\<close>

record args =
  arg_n_lines :: nat
  arg_index_x :: jsnum
  arg_index_y :: jsnum

text \<open>
  The constructor (lines 18-65). \<open>base\<close> is the object as the constructor of the base
  class left it, \<open>ax\<close> the axes that \<^verbatim>\<open>new Nengo.XYAxes(this.div, args)\<close> built. The path
  has its data bound and no \<^verbatim>\<open>d\<close> attribute yet.
\<close>

definition XYValue :: "xyvalue \<Rightarrow> sim_control \<Rightarrow> xy_axes \<Rightarrow> args \<Rightarrow> xyvalue outcome" where
  "XYValue base sc ax a =
     (let n = (if arg_n_lines a = 0 then 1 else arg_n_lines a);
          s = base\<lparr>n_lines := n, sim := sc, data_store := DataStore n, axes2d := ax,
                   index_x := arg_index_x a, index_y := arg_index_y a,
                   path_d := [],
                   recent_circle :=
                     \<lparr>circle_r = get_circle_radius base,
                      circle_cx = apply_scale (scale_x ax) (Some 0),
                      circle_cy = apply_scale (scale_y ax) (Some 0)\<rparr>,
                   warning_label := [],
                   invalid_dims := False\<rparr>
      in on_resize (screen_width s) (screen_height s) s)"

text \<open>
  The listener of lines 35-36: the host has moved the time window, and a redraw is
  scheduled.
\<close>

definition adjust_time :: "sim_control \<Rightarrow> xyvalue \<Rightarrow> xyvalue" where
  "adjust_time sc s = schedule_update (s\<lparr>sim := sc\<rparr>)"

text \<open>
  The states of a component: what the constructor returned, and what any sequence of
  events makes of it. A method that throws leaves the object in the state of the throw,
  and the next event finds it there.
\<close>

inductive reachable :: "xyvalue \<Rightarrow> bool" where
  constructed: "XYValue base sc ax a = Returned s \<Longrightarrow> reachable s"
| message: "reachable s \<Longrightarrow> reachable (on_message frame s)"
| time_adjusted: "reachable s \<Longrightarrow> reachable (adjust_time sc s)"
| viewport: "reachable s \<Longrightarrow> reachable (s\<lparr>screen_width := w, screen_height := h\<rparr>)"
| redrawn: "reachable s \<Longrightarrow> reachable (state_of (update s))"
| resized: "reachable s \<Longrightarrow> reachable (state_of (on_resize w h s))"
| was_reset: "reachable s \<Longrightarrow> reachable (reset s)"
| layout_updated: "reachable s \<Longrightarrow> reachable (state_of (update_layout config s))"
| range_set: "reachable s \<Longrightarrow> reachable (state_of (set_range nums s))"
| indices_set: "reachable s \<Longrightarrow> reachable (state_of (set_indices nums s))"

text \<open>
  The store is aligned when every dimension holds one value per time stamp; a state is
  consistent when its store is aligned and has \<open>n_lines\<close> dimensions, and the warning flag
  is up only with fewer than two dimensions and a label on display.
\<close>

definition aligned :: "data_store \<Rightarrow> bool" where
  "aligned ds = (\<forall>d \<in> set (data ds). length d = length (stamps ds))"

definition consistent :: "xyvalue \<Rightarrow> bool" where
  "consistent s =
     (length (data (data_store s)) = n_lines s \<and> aligned (data_store s) \<and>
      (invalid_dims s \<longrightarrow> n_lines s \<le> 1 \<and> warning_label s \<noteq> []))"

text \<open>The outcomes after each of the three statements of \<^verbatim>\<open>update_layout\<close> (lines 182-184).\<close>

definition update_layout_steps :: "layout \<Rightarrow> xyvalue \<Rightarrow> xyvalue outcome list" where
  "update_layout_steps config s =
     [update_indices (cfg_index_x config) (cfg_index_y config) s,
      and_then (update_indices (cfg_index_x config) (cfg_index_y config) s)
        (update_range (min_value config) (max_value config)),
      and_then (and_then (update_indices (cfg_index_x config) (cfg_index_y config) s)
                  (update_range (min_value config) (max_value config)))
        (Component_update_layout config)]"

text \<open>The domains of the two scales.\<close>

definition domains :: "xyvalue \<Rightarrow> (jsnum \<times> jsnum) \<times> (jsnum \<times> jsnum)" where
  "domains s = (scale_domain (scale_x (axes2d s)), scale_domain (scale_y (axes2d s)))"

text \<open>The pixel point of a pair of values.\<close>

definition project :: "xy_axes \<Rightarrow> real \<times> real \<Rightarrow> jsnum \<times> jsnum" where
  "project ax p = (apply_scale (scale_x ax) (Some (fst p)), apply_scale (scale_y ax) (Some (snd p)))"

subsection \<open>Example components\<close>

text \<open>
  Axes over the range \<open>[-1, 1]\<close> that fill the viewport, and axes whose pixels are the
  values themselves.
\<close>

definition demo_axes :: xy_axes where
  "demo_axes =
     \<lparr>min_val = Fin (-1), max_val = Fin 1,
      scale_x = \<lparr>scale_domain = (Fin (-1), Fin 1), scale_range = (0, 200)\<rparr>,
      scale_y = \<lparr>scale_domain = (Fin (-1), Fin 1), scale_range = (100, 0)\<rparr>,
      axis_x_tickValues = [Fin (-1), Fin 1],
      axis_y_tickValues = [Fin (-1), Fin 1],
      ax_geometry = (\<lambda>w h. ((0, w), (h, 0)))\<rparr>"

definition unit_axes :: xy_axes where
  "unit_axes =
     \<lparr>min_val = Fin 0, max_val = Fin 1,
      scale_x = \<lparr>scale_domain = (Fin 0, Fin 1), scale_range = (0, 1)\<rparr>,
      scale_y = \<lparr>scale_domain = (Fin 0, Fin 1), scale_range = (0, 1)\<rparr>,
      axis_x_tickValues = [Fin 0, Fin 1],
      axis_y_tickValues = [Fin 0, Fin 1],
      ax_geometry = (\<lambda>w h. ((0, 1), (0, 1)))\<rparr>"

definition demo_sim :: sim_control where
  "demo_sim = \<lparr>window_start = 0, window_end = 10, sim_time = 1\<rparr>"

definition demo_base :: xyvalue where
  "demo_base =
     \<lparr>n_lines = 0, sim = demo_sim, data_store = DataStore 0, axes2d = demo_axes,
      index_x = NaN, index_y = NaN, path_d = [],
      recent_circle = \<lparr>circle_r = 0, circle_cx = NaN, circle_cy = NaN\<rparr>,
      warning_label = [], invalid_dims = False,
      width = 200, height = 100, label_width = 200, div_width = 200, div_height = 100,
      screen_width = 200, screen_height = 100,
      pending_update = False, persisted = None\<rparr>"

definition demo :: "xy_axes \<Rightarrow> nat \<Rightarrow> real \<Rightarrow> real \<Rightarrow> xyvalue" where
  "demo ax n i j =
     state_of (XYValue demo_base demo_sim ax
                 \<lparr>arg_n_lines = n, arg_index_x = Fin i, arg_index_y = Fin j\<rparr>)"

text \<open>
  A component of two dimensions that has received the sample \<open>[1, -1]\<close> and plots
  dimension \<open>0\<close> against itself; a configuration that selects the dimensions \<open>0\<close> and
  \<open>1\<close> and the range \<open>[-2, 2]\<close>; a configuration whose range no dialog would accept; and
  a configuration whose \<open>index_x\<close> no dialog would accept.
\<close>

definition demo_plot :: xyvalue where
  "demo_plot = on_message [1, - 1] (demo demo_axes 2 0 0)"

definition demo_layout :: layout where
  "demo_layout =
     \<lparr>min_value = Fin (- 2), max_value = Fin 2, cfg_index_x = Fin 0, cfg_index_y = Fin 1\<rparr>"

definition odd_layout :: layout where
  "odd_layout =
     \<lparr>min_value = Fin 5, max_value = Fin 2, cfg_index_x = Fin 0, cfg_index_y = Fin 1\<rparr>"

definition far_layout :: layout where
  "far_layout =
     \<lparr>min_value = Fin (- 2), max_value = Fin 2, cfg_index_x = Fin 5, cfg_index_y = Fin 1\<rparr>"

section \<open>Properties\<close>


subsection \<open>The store\<close>

lemma shown_of_idem:
  "shown_of P (filter P ts) (shown_of P ts xs) = shown_of P ts xs"
  by (induction P ts xs rule: shown_of.induct) auto

lemma length_shown_of:
  "length xs = length ts \<Longrightarrow> length (shown_of P ts xs) = length (filter P ts)"
  by (induction P ts xs rule: shown_of.induct) auto

lemma shown_of_no_stamps: "shown_of P [] xs = []"
  by simp

lemma store_update_idem:
  "store_update sc (store_update sc ds) = store_update sc ds"
  by (simp add: store_update_def shown_of_idem)

lemma get_shown_data_store_update:
  "get_shown_data sc (store_update sc ds) = get_shown_data sc ds"
  by (simp add: store_update_def get_shown_data_def shown_of_idem)

lemma length_data_store_update:
  "length (data (store_update sc ds)) = length (data ds)"
  by (simp add: store_update_def)

lemma length_get_shown_data:
  "length (get_shown_data sc ds) = length (data ds)"
  by (simp add: get_shown_data_def)

lemma length_data_push: "length (data (push sc row ds)) = length (data ds)"
  by (simp add: push_def)

lemma length_data_store_reset: "length (data (store_reset ds)) = length (data ds)"
  by (simp add: store_reset_def)

lemma length_data_DataStore: "length (data (DataStore n)) = n"
  by (simp add: DataStore_def)

lemma aligned_store_update: "aligned ds \<Longrightarrow> aligned (store_update sc ds)"
  by (auto simp: aligned_def store_update_def length_shown_of)

lemma aligned_push: "aligned ds \<Longrightarrow> aligned (push sc row ds)"
  by (auto simp: aligned_def push_def dest!: set_zip_leftD)

lemma aligned_store_reset: "aligned (store_reset ds)"
  by (auto simp: aligned_def store_reset_def)

lemma aligned_DataStore: "aligned (DataStore n)"
  by (auto simp: aligned_def DataStore_def)

lemma aligned_shown_length:
  assumes "aligned ds" and "xs \<in> set (get_shown_data sc ds)"
  shows "length xs = length (filter (in_window sc) (stamps ds))"
  using assms by (auto simp: aligned_def get_shown_data_def length_shown_of)

subsection \<open>Array reads\<close>

lemma js_index_mem: "js_index xs i = Some x \<Longrightarrow> x \<in> set xs"
  by (cases i) (auto split: if_splits)

lemma js_index_map: "js_index (map f xs) i = map_option f (js_index xs i)"
  by (cases i) (auto simp: nat_less_iff floor_less_iff)

lemma js_index_length:
  "length xs = length ys \<Longrightarrow> js_index xs i = None \<longleftrightarrow> js_index ys i = None"
  by (cases i) auto

lemma line_zip:
  assumes "length xs = length ys"
  shows "line ax xs ys = map (project ax) (zip xs ys)"
  using assms
  by (auto simp: line_def project_def nth_opt_def simp del: apply_scale.simps
        intro!: nth_equalityI)

subsection \<open>Outcomes\<close>

lemma and_then_keeps:
  assumes "P (state_of r)" and "\<And>s. P s \<Longrightarrow> P (state_of (f s))"
  shows "P (state_of (and_then r f))"
  using assms by (cases r) auto

lemma and_then_assoc:
  "and_then (and_then r f) g = and_then r (\<lambda>s. and_then (f s) g)"
  by (cases r) auto

subsection \<open>What a redraw leaves alone\<close>

lemma update_frame:
  "axes2d (state_of (update s)) = axes2d s"
  "index_x (state_of (update s)) = index_x s"
  "index_y (state_of (update s)) = index_y s"
  "n_lines (state_of (update s)) = n_lines s"
  "sim (state_of (update s)) = sim s"
  "length (data (data_store (state_of (update s)))) = length (data (data_store s))"
  by (auto simp: update_def Let_def clear_invalid_def length_data_store_update
        split: option.splits)

text \<open>A redraw returns whenever both indices select a dimension of the store.\<close>

lemma update_returns:
  assumes "js_index (data (data_store s)) (index_x s) \<noteq> None"
    and "js_index (data (data_store s)) (index_y s) \<noteq> None"
  shows "returned (update s)"
proof -
  obtain xs ys where
    "js_index (get_shown_data (sim s) (data_store s)) (index_x s) = Some xs"
    "js_index (get_shown_data (sim s) (data_store s)) (index_y s) = Some ys"
    using assms by (auto simp: get_shown_data_def js_index_map)
  then show ?thesis
    by (simp add: update_def Let_def length_data_store_update get_shown_data_store_update)
qed

lemma on_resize_indices:
  "index_x (state_of (on_resize w h s)) = index_x s \<and>
   index_y (state_of (on_resize w h s)) = index_y s"
  unfolding on_resize_def
  by (rule and_then_keeps) (simp_all add: update_frame Let_def)


lemma on_resize_domains:
  "domains (state_of (on_resize w h s)) = domains s"
proof -
  have "domains (state_of (on_resize w h s)) = domains (s\<lparr>axes2d := axes_on_resize w h (axes2d s)\<rparr>)"
    unfolding on_resize_def
    by (rule and_then_keeps) (simp_all add: update_frame Let_def domains_def)
  then show ?thesis
    by (simp add: domains_def axes_on_resize_def split: prod.splits)
qed


subsection \<open>Consistency is kept\<close>

lemma resize_label_Nil: "resize_label w h rs = [] \<longleftrightarrow> rs = []"
  by (cases rs) auto

lemma consistent_update: "consistent s \<Longrightarrow> consistent (state_of (update s))"
  by (auto simp: consistent_def update_def Let_def clear_invalid_def
        length_data_store_update aligned_store_update split: option.splits)

lemma consistent_on_resize: "consistent s \<Longrightarrow> consistent (state_of (on_resize w h s))"
  unfolding on_resize_def
proof (rule and_then_keeps)
  assume "consistent s"
  then have "consistent (s\<lparr>axes2d := axes_on_resize w h (axes2d s)\<rparr>)"
    by (simp add: consistent_def)
  then show "consistent (state_of (update (s\<lparr>axes2d := axes_on_resize w h (axes2d s)\<rparr>)))"
    by (rule consistent_update)
next
  fix s1 assume "consistent s1"
  then show "consistent (state_of (let s2 = s1\<lparr>label_width := w, width := w, height := h,
                          div_width := w, div_height := h\<rparr> in
             Returned (s2\<lparr>recent_circle :=
                            (recent_circle s2)\<lparr>circle_r := get_circle_radius s2\<rparr>,
                          warning_label := resize_label w h (warning_label s2)\<rparr>)))"
    by (simp add: consistent_def Let_def resize_label_Nil)
qed

lemma consistent_and_then:
  assumes "consistent (state_of r)" and "\<And>s. consistent s \<Longrightarrow> consistent (state_of (f s))"
  shows "consistent (state_of (and_then r f))"
  using assms by (rule and_then_keeps)

lemma consistent_update_range:
  "consistent s \<Longrightarrow> consistent (state_of (update_range mn mx s))"
  unfolding update_range_def Let_def
  by (rule consistent_on_resize) (simp add: consistent_def)

lemma consistent_update_indices:
  "consistent s \<Longrightarrow> consistent (state_of (update_indices ix iy s))"
  unfolding update_indices_def
  by (rule consistent_update) (simp add: consistent_def)

lemma consistent_save_layout: "consistent s \<Longrightarrow> consistent (save_layout s)"
  by (simp add: consistent_def save_layout_def)

lemma consistent_update_layout:
  "consistent s \<Longrightarrow> consistent (state_of (update_layout c s))"
  unfolding update_layout_def
  by (intro consistent_and_then consistent_update_indices consistent_update_range)
     (simp_all add: Component_update_layout_def)

lemma consistent_set_range: "consistent s \<Longrightarrow> consistent (state_of (set_range nums s))"
  unfolding set_range_def Let_def
  by (auto intro!: consistent_and_then consistent_update_range consistent_update
        simp: consistent_save_layout)

lemma consistent_set_indices:
  "consistent s \<Longrightarrow> consistent (state_of (set_indices nums s))"
  unfolding set_indices_def
  by (auto intro!: consistent_and_then consistent_update_indices
        simp: consistent_save_layout)

lemma consistent_on_message: "consistent s \<Longrightarrow> consistent (on_message frame s)"
  by (simp add: consistent_def on_message_def schedule_update_def aligned_push
        length_data_push)

lemma consistent_reset: "consistent s \<Longrightarrow> consistent (reset s)"
  by (simp add: consistent_def reset_def schedule_update_def aligned_store_reset
        length_data_store_reset)

lemma consistent_XYValue: "consistent (state_of (XYValue base sc ax a))"
  unfolding XYValue_def Let_def
  by (rule consistent_on_resize)
     (simp add: consistent_def aligned_DataStore length_data_DataStore)

lemma reachable_consistent: "reachable s \<Longrightarrow> consistent s"
proof (induction rule: reachable.induct)
  case (constructed base sc ax a s)
  then show ?case using consistent_XYValue [of base sc ax a] by simp
next
  case (time_adjusted s sc)
  then show ?case by (simp add: consistent_def adjust_time_def schedule_update_def)
next
  case (viewport s w h)
  then show ?case by (simp add: consistent_def)
qed (simp_all add: consistent_on_message consistent_update consistent_on_resize
       consistent_reset consistent_update_layout consistent_set_range consistent_set_indices)

lemma invalid_dims_of_update:
  assumes "consistent s \<or> returned (update s)"
  shows "invalid_dims (state_of (update s)) = (length (data (data_store s)) \<le> 1)"
proof -
  have "invalid_dims s \<longrightarrow> length (data (data_store s)) \<le> 1 \<or> returned (update s)"
    using assms by (auto simp: consistent_def)
  then show ?thesis
    by (auto simp: update_def Let_def clear_invalid_def length_data_store_update
          split: option.splits if_splits)
qed

subsection \<open>The example components\<close>

lemmas demo_defs = demo_def XYValue_def Let_def on_resize_def update_def demo_base_def
  demo_sim_def demo_axes_def unit_axes_def DataStore_def store_update_def get_shown_data_def
  axes_on_resize_def clear_invalid_def get_circle_radius_def on_message_def push_def
  schedule_update_def in_window_def line_def nth_opt_def

lemma demo_returned:
  "XYValue demo_base demo_sim ax \<lparr>arg_n_lines = n, arg_index_x = Fin 0, arg_index_y = Fin j\<rparr>
   = Returned (demo ax n 0 j)"
  by (simp add: demo_def XYValue_def Let_def on_resize_def update_def DataStore_def
      store_update_def get_shown_data_def clear_invalid_def split: option.splits)

lemma reachable_demo: "reachable (demo ax n 0 j)"
  by (rule constructed) (rule demo_returned)

subsection \<open>Redrawing twice\<close>

text \<open>
  Claim C8. A second \<^verbatim>\<open>update\<close>, with no message, reset or other event in between, has
  the outcome of the first: the same path, the same marker and the same state of the
  component (and where the first call threw, the second throws from the same state).
\<close>

theorem update_idempotent:
  "update (state_of (update s)) = update s \<and>
   path_d (state_of (update (state_of (update s)))) = path_d (state_of (update s)) \<and>
   recent_circle (state_of (update (state_of (update s))))
     = recent_circle (state_of (update s)) \<and>
   state_of (update (state_of (update s))) = state_of (update s)"
proof -
  have "update (state_of (update s)) = update s"
    by (auto simp: update_def Let_def store_update_idem clear_invalid_def
          length_data_store_update split: option.splits)
  then show ?thesis
    by simp
qed

subsection \<open>The warning flag follows the dimension count\<close>

text \<open>
  Claim C9. After every call of \<^verbatim>\<open>update\<close>, in any state a component can reach (and in
  any state at all when the call returns), \<^verbatim>\<open>invalid_dims\<close> is true exactly when
  \<^verbatim>\<open>data_store.data\<close> has at most one dimension; the samples in the window play no part,
  and the call leaves the dimension count as it is.
\<close>

theorem invalid_dims_after_update:
  assumes "reachable s \<or> returned (update s)"
  shows "invalid_dims (state_of (update s)) = (length (data (data_store s)) \<le> 1) \<and>
         length (data (data_store s)) = length (data (data_store (state_of (update s))))"
proof -
  from assms have "consistent s \<or> returned (update s)"
    by (auto dest: reachable_consistent)
  then show ?thesis
    by (simp add: invalid_dims_of_update update_frame)
qed

theorem invalid_dims_after_update_witness:
  "(reachable (demo demo_axes 2 0 1) \<or> returned (update (demo demo_axes 2 0 1))) \<and>
   invalid_dims (state_of (update (demo demo_axes 2 0 1))) = False \<and>
   length (data (data_store (demo demo_axes 2 0 1))) = 2"
proof -
  have r: "reachable (demo demo_axes 2 0 1) \<or> returned (update (demo demo_axes 2 0 1))"
    by (simp add: reachable_demo)
  have n: "length (data (data_store (demo demo_axes 2 0 1))) = 2"
    by (simp add: demo_defs)
  show ?thesis
    using r n invalid_dims_after_update [OF r] by simp
qed

subsection \<open>Reset clears the data and nothing else\<close>

text \<open>
  Claim C5. \<^verbatim>\<open>reset\<close> leaves \<^verbatim>\<open>index_x\<close>, \<^verbatim>\<open>index_y\<close> and the range (the axes' bounds and
  the domains of both scales) as they were. It empties every dimension of the store and
  the time stamps, marks a redraw as pending, and changes nothing else.
\<close>

theorem reset_frame:
  "index_x (reset s) = index_x s \<and> index_y (reset s) = index_y s \<and>
   min_val (axes2d (reset s)) = min_val (axes2d s) \<and>
   max_val (axes2d (reset s)) = max_val (axes2d s) \<and>
   domains (reset s) = domains s \<and>
   data (data_store (reset s)) = replicate (length (data (data_store s))) [] \<and>
   stamps (data_store (reset s)) = [] \<and>
   reset s = s\<lparr>data_store := data_store (reset s), pending_update := True\<rparr>"
  by (simp add: reset_def schedule_update_def store_reset_def domains_def map_replicate_const)

subsection \<open>The warning and the empty window\<close>

lemma js_index_const_map:
  "js_index (map (\<lambda>d. c) xs) i = None \<longleftrightarrow> js_index xs i = None"
  by (simp add: js_index_map)

lemma update_few_dimensions:
  assumes "length (data (data_store s)) \<le> 1"
  shows "update s = Returned
           (if invalid_dims s
            then s\<lparr>data_store := store_update (sim s) (data_store s)\<rparr>
            else s\<lparr>data_store := store_update (sim s) (data_store s),
                   invalid_dims := True,
                   warning_label := warning_label s @
                     [\<lparr>rect_x = 50, rect_y = 50, rect_width = None, rect_height = None\<rparr>]\<rparr>)"
  using assms by (simp add: update_def Let_def length_data_store_update)

lemma update_nothing_shown:
  assumes "1 < length (data (data_store s))"
    and "js_index (get_shown_data (sim s) (data_store s)) (index_x s) = Some []"
  shows "update s = Returned (clear_invalid (s\<lparr>data_store := store_update (sim s) (data_store s)\<rparr>))"
  using assms
  by (simp add: update_def Let_def length_data_store_update get_shown_data_store_update)

lemma no_stamps_shown:
  assumes "stamps ds = []" and "js_index (data ds) i \<noteq> None"
  shows "js_index (get_shown_data sc ds) i = Some []"
  using assms by (auto simp: get_shown_data_def js_index_map)

text \<open>
  Claim C1, as amended. A redraw of a component with fewer than two dimensions returns
  with \<^verbatim>\<open>invalid_dims\<close> set, draws no path, leaves the marker where it was and has the
  warning label on display. A redraw of a component with two dimensions and an empty
  stream (and \<^verbatim>\<open>index_x\<close> one of the two) returns with \<^verbatim>\<open>invalid_dims\<close> false, and draws
  no path.
\<close>

theorem few_dimensions_warning:
  "(length (data (data_store s)) \<le> 1 \<longrightarrow>
      returned (update s) \<and> invalid_dims (state_of (update s)) \<and>
      path_d (state_of (update s)) = path_d s \<and>
      recent_circle (state_of (update s)) = recent_circle s \<and>
      (reachable s \<longrightarrow> warning_label (state_of (update s)) \<noteq> [])) \<and>
   (length (data (data_store s)) = 2 \<and> stamps (data_store s) = [] \<and>
    js_index (data (data_store s)) (index_x s) \<noteq> None \<longrightarrow>
      returned (update s) \<and> \<not> invalid_dims (state_of (update s)) \<and>
      path_d (state_of (update s)) = path_d s)"
proof (intro conjI impI)
  assume few: "length (data (data_store s)) \<le> 1"
  note u = update_few_dimensions [OF few]
  show "returned (update s)" by (simp add: u)
  show "invalid_dims (state_of (update s))" by (simp add: u)
  show "path_d (state_of (update s)) = path_d s" by (simp add: u)
  show "recent_circle (state_of (update s)) = recent_circle s" by (simp add: u)
  assume "reachable s"
  then have "invalid_dims s \<longrightarrow> warning_label s \<noteq> []"
    using reachable_consistent [of s] by (simp add: consistent_def)
  then show "warning_label (state_of (update s)) \<noteq> []" by (simp add: u)
next
  assume two: "length (data (data_store s)) = 2 \<and> stamps (data_store s) = [] \<and>
    js_index (data (data_store s)) (index_x s) \<noteq> None"
  then have "js_index (get_shown_data (sim s) (data_store s)) (index_x s) = Some []"
    by (simp add: no_stamps_shown)
  with two have u: "update s =
      Returned (clear_invalid (s\<lparr>data_store := store_update (sim s) (data_store s)\<rparr>))"
    by (simp add: update_nothing_shown)
  show "returned (update s)" by (simp add: u)
  show "\<not> invalid_dims (state_of (update s))" by (simp add: u clear_invalid_def)
  show "path_d (state_of (update s)) = path_d s" by (simp add: u clear_invalid_def)
qed

text \<open>
  Claim C1 as the specification states it fails on a new component of two dimensions:
  its window holds no sample at all, and the redraw leaves \<^verbatim>\<open>invalid_dims\<close> false and the
  warning label empty.
\<close>

theorem empty_window_counterexample:
  "get_shown_data (sim (demo demo_axes 2 0 1)) (data_store (demo demo_axes 2 0 1)) = [[], []] \<and>
   invalid_dims (state_of (update (demo demo_axes 2 0 1))) = False \<and>
   warning_label (state_of (update (demo demo_axes 2 0 1))) = []"
  by (simp add: demo_defs numeral_2_eq_2)


theorem few_dimensions_warning_witness:
  "length (data (data_store (demo demo_axes 1 0 0))) \<le> 1 \<and>
   reachable (demo demo_axes 1 0 0) \<and>
   returned (update (demo demo_axes 1 0 0)) \<and>
   invalid_dims (state_of (update (demo demo_axes 1 0 0))) \<and>
   path_d (state_of (update (demo demo_axes 1 0 0))) = [] \<and>
   warning_label (state_of (update (demo demo_axes 1 0 0))) \<noteq> [] \<and>
   length (data (data_store (demo demo_axes 2 0 1))) = 2 \<and>
   stamps (data_store (demo demo_axes 2 0 1)) = [] \<and>
   js_index (data (data_store (demo demo_axes 2 0 1))) (index_x (demo demo_axes 2 0 1)) \<noteq> None \<and>
   returned (update (demo demo_axes 2 0 1)) \<and>
   \<not> invalid_dims (state_of (update (demo demo_axes 2 0 1))) \<and>
   path_d (state_of (update (demo demo_axes 2 0 1))) = []"
proof -
  have one: "length (data (data_store (demo demo_axes 1 0 0))) \<le> 1"
    and p1: "path_d (demo demo_axes 1 0 0) = []"
    by (simp_all add: demo_defs)
  have r: "reachable (demo demo_axes 1 0 0)"
    by (rule reachable_demo)
  have two: "length (data (data_store (demo demo_axes 2 0 1))) = 2 \<and>
      stamps (data_store (demo demo_axes 2 0 1)) = [] \<and>
      js_index (data (data_store (demo demo_axes 2 0 1))) (index_x (demo demo_axes 2 0 1)) \<noteq> None"
    and p2: "path_d (demo demo_axes 2 0 1) = []"
    by (simp_all add: demo_defs numeral_2_eq_2)
  show ?thesis
    using one r two p1 p2
      few_dimensions_warning [of "demo demo_axes 1 0 0"]
      few_dimensions_warning [of "demo demo_axes 2 0 1"]
    by simp
qed

subsection \<open>The redraw after a reset\<close>

lemma reset_shown:
  assumes "js_index (data (data_store s)) (index_x s) \<noteq> None"
  shows "js_index (get_shown_data (sim (reset s)) (data_store (reset s))) (index_x (reset s)) = Some []"
proof -
  have "js_index (data (data_store (reset s))) (index_x s) \<noteq> None"
    using assms by (simp add: reset_def schedule_update_def store_reset_def js_index_map)
  moreover have "stamps (data_store (reset s)) = []" "index_x (reset s) = index_x s"
    by (simp_all add: reset_def schedule_update_def store_reset_def)
  ultimately show ?thesis
    by (simp add: no_stamps_shown)
qed

lemma length_data_reset:
  "length (data (data_store (reset s))) = length (data (data_store s))"
  by (simp add: reset_def schedule_update_def length_data_store_reset)

text \<open>
  Claim C6, as amended. After \<^verbatim>\<open>reset\<close>, the next redraw leaves \<^verbatim>\<open>invalid_dims\<close> true when
  the component has fewer than two dimensions and false when it has more, whatever the
  flag was before the reset: in every state a component can reach, and in every state
  at all where \<^verbatim>\<open>index_x\<close> is one of the dimensions; there the redraw returns.
\<close>

theorem reset_then_update:
  "(reachable s \<or> length (data (data_store s)) \<le> 1 \<or>
     js_index (data (data_store s)) (index_x s) \<noteq> None \<longrightarrow>
      invalid_dims (state_of (update (reset s))) = (length (data (data_store s)) \<le> 1)) \<and>
   (length (data (data_store s)) \<le> 1 \<or>
     js_index (data (data_store s)) (index_x s) \<noteq> None \<longrightarrow>
      returned (update (reset s)))"
proof -
  have ret: "returned (update (reset s)) \<and>
      invalid_dims (state_of (update (reset s))) = (length (data (data_store s)) \<le> 1)"
    if "length (data (data_store s)) \<le> 1 \<or>
        js_index (data (data_store s)) (index_x s) \<noteq> None"
  proof (cases "length (data (data_store s)) \<le> 1")
    case True
    then have "length (data (data_store (reset s))) \<le> 1"
      by (simp add: length_data_reset)
    from update_few_dimensions [OF this] True show ?thesis
      by simp
  next
    case False
    with that have "js_index (data (data_store s)) (index_x s) \<noteq> None"
      by simp
    then have "js_index (get_shown_data (sim (reset s)) (data_store (reset s)))
                 (index_x (reset s)) = Some []"
      by (rule reset_shown)
    moreover from False have "1 < length (data (data_store (reset s)))"
      by (simp add: length_data_reset)
    ultimately have "update (reset s) = Returned (clear_invalid
        ((reset s)\<lparr>data_store := store_update (sim (reset s)) (data_store (reset s))\<rparr>))"
      by (simp add: update_nothing_shown)
    with False show ?thesis
      by (simp add: clear_invalid_def)
  qed
  have "invalid_dims (state_of (update (reset s))) = (length (data (data_store s)) \<le> 1)"
    if "reachable s"
  proof -
    from that have "reachable (reset s)"
      by (rule was_reset)
    then have "consistent (reset s) \<or> returned (update (reset s))"
      by (simp add: reachable_consistent)
    from invalid_dims_of_update [OF this] show ?thesis
      by (simp add: length_data_reset)
  qed
  with ret show ?thesis
    by blast
qed


text \<open>
  Claim C6 as the specification states it fails on a component of two dimensions that
  has received a sample: after the reset the redraw returns with \<^verbatim>\<open>invalid_dims\<close> false.
\<close>

theorem reset_then_update_counterexample:
  "returned (update (reset (on_message [1, 2] (demo demo_axes 2 0 1)))) \<and>
   invalid_dims (state_of (update (reset (on_message [1, 2] (demo demo_axes 2 0 1))))) = False"
  by (simp add: demo_defs reset_def store_reset_def numeral_2_eq_2)

theorem reset_then_update_witness:
  "reachable (on_message [1, 2] (demo demo_axes 2 0 1)) \<and>
   js_index (data (data_store (on_message [1, 2] (demo demo_axes 2 0 1))))
     (index_x (on_message [1, 2] (demo demo_axes 2 0 1))) \<noteq> None \<and>
   length (data (data_store (on_message [1, 2] (demo demo_axes 2 0 1)))) = 2 \<and>
   invalid_dims (state_of (update (reset (on_message [1, 2] (demo demo_axes 2 0 1))))) = False \<and>
   returned (update (reset (on_message [1, 2] (demo demo_axes 2 0 1))))"
proof -
  have r: "reachable (on_message [1, 2] (demo demo_axes 2 0 1))"
    by (rule message) (rule reachable_demo)
  have i: "js_index (data (data_store (on_message [1, 2] (demo demo_axes 2 0 1))))
     (index_x (on_message [1, 2] (demo demo_axes 2 0 1))) \<noteq> None"
    and n: "length (data (data_store (on_message [1, 2] (demo demo_axes 2 0 1)))) = 2"
    by (simp_all add: demo_defs numeral_2_eq_2)
  show ?thesis
    using r i n reset_then_update [of "on_message [1, 2] (demo demo_axes 2 0 1)"]
    by simp
qed

subsection \<open>The path and the marker\<close>

lemma last_nth_opt: "xs \<noteq> [] \<Longrightarrow> nth_opt xs (nat (int (length xs) - 1)) = Some (last xs)"
  by (simp add: nth_opt_def last_conv_nth nat_diff_distrib')

text \<open>
  Claim C7, as amended. In a component with at least two dimensions and an aligned store,
  when the window holds a sample and \<^verbatim>\<open>index_x\<close> and \<^verbatim>\<open>index_y\<close> select the dimensions
  \<open>xs\<close> and \<open>ys\<close> of the snapshot, the redraw returns, the path is the pixel points of
  \<open>xs\<close> zipped with \<open>ys\<close> in order, the marker sits at the pixel point of the last
  element of each, and \<^verbatim>\<open>invalid_dims\<close> is false.
\<close>

theorem redraw_zip:
  assumes "1 < length (data (data_store s))"
    and "aligned (data_store s)"
    and "js_index (get_shown_data (sim s) (data_store s)) (index_x s) = Some xs"
    and "js_index (get_shown_data (sim s) (data_store s)) (index_y s) = Some ys"
    and "xs \<noteq> []"
  shows "returned (update s) \<and>
         path_d (state_of (update s)) = map (project (axes2d s)) (zip xs ys) \<and>
         (circle_cx (recent_circle (state_of (update s))),
          circle_cy (recent_circle (state_of (update s))))
           = project (axes2d s) (last xs, last ys) \<and>
         \<not> invalid_dims (state_of (update s))"
proof -
  have "length xs = length (filter (in_window (sim s)) (stamps (data_store s)))"
    "length ys = length (filter (in_window (sim s)) (stamps (data_store s)))"
    using assms(2-4) by (auto intro: aligned_shown_length dest: js_index_mem)
  then have len: "length ys = length xs"
    by simp
  with assms(5) have ys: "ys \<noteq> []"
    by auto
  have up: "update s = Returned (clear_invalid
       (s\<lparr>data_store := store_update (sim s) (data_store s),
          path_d := line (axes2d s) xs ys,
          recent_circle := (recent_circle s)
            \<lparr>circle_cx := apply_scale (scale_x (axes2d s)) (nth_opt xs (nat (int (length xs) - 1))),
             circle_cy := apply_scale (scale_y (axes2d s)) (nth_opt ys (nat (int (length xs) - 1)))\<rparr>\<rparr>))"
    using assms(1,3,4,5)
    by (simp add: update_def Let_def length_data_store_update get_shown_data_store_update
          del: apply_scale.simps)
  have "nth_opt xs (nat (int (length xs) - 1)) = Some (last xs)"
    "nth_opt ys (nat (int (length xs) - 1)) = Some (last ys)"
    using last_nth_opt [OF assms(5)] last_nth_opt [OF ys] len by simp_all
  with up len show ?thesis
    by (simp add: clear_invalid_def line_zip project_def del: apply_scale.simps)
qed

text \<open>
  The scenario of the specification: three dimensions, the samples \<open>[0,0,0]\<close>,
  \<open>[1,2,3]\<close>, \<open>[4,5,6]\<close>, the indices \<open>0\<close> and \<open>1\<close>, on axes whose pixels are the values.
\<close>

theorem redraw_zip_witness:
  "1 < length (data (data_store
         (on_message [4, 5, 6] (on_message [1, 2, 3] (on_message [0, 0, 0] (demo unit_axes 3 0 1)))))) \<and>
   aligned (data_store
         (on_message [4, 5, 6] (on_message [1, 2, 3] (on_message [0, 0, 0] (demo unit_axes 3 0 1))))) \<and>
   index_x (on_message [4, 5, 6] (on_message [1, 2, 3] (on_message [0, 0, 0] (demo unit_axes 3 0 1)))) = Fin 0 \<and>
   index_y (on_message [4, 5, 6] (on_message [1, 2, 3] (on_message [0, 0, 0] (demo unit_axes 3 0 1)))) = Fin 1 \<and>
   get_shown_data demo_sim (data_store
         (on_message [4, 5, 6] (on_message [1, 2, 3] (on_message [0, 0, 0] (demo unit_axes 3 0 1)))))
     = [[0, 1, 4], [0, 2, 5], [0, 3, 6]] \<and>
   path_d (state_of (update
         (on_message [4, 5, 6] (on_message [1, 2, 3] (on_message [0, 0, 0] (demo unit_axes 3 0 1))))))
     = [(Fin 0, Fin 0), (Fin 1, Fin 2), (Fin 4, Fin 5)] \<and>
   circle_cx (recent_circle (state_of (update
         (on_message [4, 5, 6] (on_message [1, 2, 3] (on_message [0, 0, 0] (demo unit_axes 3 0 1)))))))
     = Fin 4 \<and>
   circle_cy (recent_circle (state_of (update
         (on_message [4, 5, 6] (on_message [1, 2, 3] (on_message [0, 0, 0] (demo unit_axes 3 0 1)))))))
     = Fin 5"
proof -
  define s where
    "s = on_message [4, 5, 6] (on_message [1, 2, 3] (on_message [0, 0, 0] (demo unit_axes 3 0 1)))"
  have d: "data_store s = \<lparr>data = [[0, 1, 4], [0, 2, 5], [0, 3, 6]], stamps = [1, 1, 1]\<rparr>"
    and i: "index_x s = Fin 0" "index_y s = Fin 1"
    and m: "sim s = demo_sim"
    and a: "axes2d s = unit_axes"
    by (simp_all add: s_def demo_defs numeral_3_eq_3)
  have sh: "get_shown_data demo_sim (data_store s) = [[0, 1, 4], [0, 2, 5], [0, 3, 6]]"
    by (simp add: d get_shown_data_def in_window_def demo_sim_def)
  have al: "aligned (data_store s)"
    by (simp add: d aligned_def)
  have n: "1 < length (data (data_store s))"
    by (simp add: d)
  have x: "js_index (get_shown_data (sim s) (data_store s)) (index_x s) = Some [0, 1, 4]"
    and y: "js_index (get_shown_data (sim s) (data_store s)) (index_y s) = Some [0, 2, 5]"
    by (simp_all add: m sh i)
  have "[0, 1, 4] \<noteq> ([] :: real list)"
    by simp
  from redraw_zip [OF n al x y this] have
    "path_d (state_of (update s)) = [(Fin 0, Fin 0), (Fin 1, Fin 2), (Fin 4, Fin 5)] \<and>
     circle_cx (recent_circle (state_of (update s))) = Fin 4 \<and>
     circle_cy (recent_circle (state_of (update s))) = Fin 5"
    by (simp add: a project_def unit_axes_def)
  with n al i sh show ?thesis
    unfolding s_def by simp
qed

text \<open>
  Claim C7 as the specification states it fails on a component of one dimension: its
  window holds three samples, both indices select the one dimension, and the redraw
  draws no path and raises the warning flag.
\<close>

theorem one_dimension_counterexample:
  "get_shown_data demo_sim (data_store
      (on_message [3] (on_message [2] (on_message [1] (demo unit_axes 1 0 0))))) = [[1, 2, 3]] \<and>
   index_x (on_message [3] (on_message [2] (on_message [1] (demo unit_axes 1 0 0)))) = Fin 0 \<and>
   index_y (on_message [3] (on_message [2] (on_message [1] (demo unit_axes 1 0 0)))) = Fin 0 \<and>
   returned (update (on_message [3] (on_message [2] (on_message [1] (demo unit_axes 1 0 0))))) \<and>
   path_d (state_of (update
      (on_message [3] (on_message [2] (on_message [1] (demo unit_axes 1 0 0)))))) = [] \<and>
   invalid_dims (state_of (update
      (on_message [3] (on_message [2] (on_message [1] (demo unit_axes 1 0 0))))))"
  by (simp add: demo_defs)

subsection \<open>The range dialog\<close>

lemma domains_update: "domains (state_of (update s)) = domains s"
  by (simp add: domains_def update_frame)

lemma domains_and_then:
  assumes "domains (state_of r) = d" and "\<And>s. domains (state_of (f s)) = domains s"
  shows "domains (state_of (and_then r f)) = d"
  using assms by (cases r) auto

lemma update_range_domains:
  "domains (state_of (update_range mn mx s)) = ((mn, mx), (mn, mx))"
  by (simp add: update_range_def Let_def on_resize_domains) (simp add: domains_def)

lemma update_range_bounds:
  "min_val (axes2d (state_of (update_range mn mx s))) = mn \<and>
   max_val (axes2d (state_of (update_range mn mx s))) = mx"
  unfolding update_range_def Let_def on_resize_def
  by (rule and_then_keeps)
     (simp_all add: update_frame axes_on_resize_def Let_def split: prod.splits)

lemma update_indices_stored:
  "index_x (state_of (update_indices ix iy s)) = ix \<and>
   index_y (state_of (update_indices ix iy s)) = iy"
  by (simp add: update_indices_def update_frame)

lemma piece_pair: "piece [a, b] 0 = a" "piece [a, b] 1 = b" "piece [a, b] (Suc 0) = b"
  by (simp_all add: piece_def nth_opt_def)

lemma plain_read:
  "isNumeric (plain r)" "Number (plain r) = Fin r" "parseFloat (plain r) = Fin r"
  "parseInt (plain r) = Fin (js_trunc r)"
  by (simp_all add: plain_def)

lemma update_then_save:
  "domains (state_of (and_then (update s) (\<lambda>s2. Returned (save_layout s2)))) = domains s"
  using domains_update [of s]
  by (cases "update s") (simp_all add: save_layout_def domains_def)

lemma flushed_le:
  "0 \<le> t \<Longrightarrow> (if \<bar>x\<bar> \<le> t then 0 else x) \<le> (0::real) \<longleftrightarrow> x \<le> t"
  by auto

lemma js_mult_le_zero:
  "js_le (js_mult (Fin a) (Fin b)) (Fin 0) \<longleftrightarrow> a * b \<le> 1 / 2 ^ 1075"
  unfolding js_mult.simps js_le.simps by (rule flushed_le) simp

text \<open>
  What the validator decides on two pieces in plain decimal notation: the first below the
  second, and a product that is negative, zero, or too small for a double.
\<close>

lemma range_validator_plain:
  "range_validator [plain mn, plain mx] \<longleftrightarrow> mn < mx \<and> mn * mx \<le> 1 / 2 ^ 1075"
proof -
  have "range_validator [plain mn, plain mx] \<longleftrightarrow>
      js_less (Fin mn) (Fin mx) \<and> js_le (js_mult (Fin mn) (Fin mx)) (Fin 0)"
    by (simp add: range_validator_def piece_pair plain_read
          del: js_mult.simps js_le.simps js_less.simps)
  then show ?thesis
    by (simp only: js_mult_le_zero js_less.simps)
qed

text \<open>
  An accepted text sets both domains to what \<^verbatim>\<open>parseFloat\<close> reads from its pieces; a
  refused text leaves the component as it was.
\<close>

lemma set_range_domains:
  assumes "range_validator nums"
  shows "domains (state_of (set_range nums s)) =
           ((parseFloat (piece nums 0), parseFloat (piece nums 1)),
            (parseFloat (piece nums 0), parseFloat (piece nums 1)))"
  using assms unfolding set_range_def Let_def
  by (simp add: domains_and_then [OF update_range_domains] update_then_save)

lemma set_range_refused: "\<not> range_validator nums \<Longrightarrow> set_range nums s = Returned s"
  by (simp add: set_range_def)

lemma tiny_product:
  "(1::real) / 10 ^ 170 < 2 / 10 ^ 170"
  "(1::real) / 10 ^ 170 * (2 / 10 ^ 170) \<le> 1 / 2 ^ 1075"
  "(0::real) < 1 / 10 ^ 170 * (2 / 10 ^ 170)"
  by simp_all

text \<open>
  Claim C2, where the code departs from it. The text \<^verbatim>\<open>-5,0x10\<close> is accepted, since
  \<^verbatim>\<open>Number\<close> reads \<open>-5 < 16\<close> with a negative product, and the handler then applies what
  \<^verbatim>\<open>parseFloat\<close> reads: both domains become \<open>[-5, 0]\<close>, not \<open>[-5, 16]\<close>. In the same way
  the text \<^verbatim>\<open>0,0x10\<close> is accepted and both domains become \<open>[0, 0]\<close>. The text
  \<^verbatim>\<open>1e-170,2e-170\<close> is accepted as well, since its positive product is rounded to zero,
  and both domains become a range that does not contain zero.
\<close>

theorem set_range_misreads:
  "range_validator [plain (- 5), hex_piece] \<and>
   Number (plain (- 5)) = Fin (- 5) \<and> Number hex_piece = Fin 16 \<and>
   domains (state_of (set_range [plain (- 5), hex_piece] (demo demo_axes 2 0 1)))
     = ((Fin (- 5), Fin 0), (Fin (- 5), Fin 0)) \<and>
   range_validator [plain 0, hex_piece] \<and>
   domains (state_of (set_range [plain 0, hex_piece] (demo demo_axes 2 0 1)))
     = ((Fin 0, Fin 0), (Fin 0, Fin 0)) \<and>
   range_validator [plain (1 / 10 ^ 170), plain (2 / 10 ^ 170)] \<and>
   (0::real) < 1 / 10 ^ 170 * (2 / 10 ^ 170) \<and>
   domains (state_of (set_range [plain (1 / 10 ^ 170), plain (2 / 10 ^ 170)]
                        (demo demo_axes 2 0 1)))
     = ((Fin (1 / 10 ^ 170), Fin (2 / 10 ^ 170)), (Fin (1 / 10 ^ 170), Fin (2 / 10 ^ 170)))"
proof -
  have hex: "range_validator [plain (- 5), hex_piece]"
    and zero: "range_validator [plain 0, hex_piece]"
    by (simp_all add: range_validator_def piece_pair plain_read hex_piece_def)
  have tiny: "range_validator [plain (1 / 10 ^ 170), plain (2 / 10 ^ 170)]"
    unfolding range_validator_plain using tiny_product by blast
  show ?thesis
    using hex zero tiny tiny_product(3)
      set_range_domains [OF hex, of "demo demo_axes 2 0 1"]
      set_range_domains [OF zero, of "demo demo_axes 2 0 1"]
      set_range_domains [OF tiny, of "demo demo_axes 2 0 1"]
    by (simp add: piece_pair plain_read hex_piece_def)
qed

subsection \<open>The indices dialog\<close>

lemma js_trunc_integral: "js_trunc r = r \<longleftrightarrow> r \<in> \<int>"
  by (auto simp: js_trunc_def of_int_floor_cancel of_int_ceiling_cancel Ints_def)

lemma mantissa_bounds:
  assumes "0 < x"
  shows "1 \<le> x / 10 powr of_int \<lfloor>log 10 x\<rfloor>" "x / 10 powr of_int \<lfloor>log 10 x\<rfloor> < 10"
proof -
  let ?e = "\<lfloor>log 10 x\<rfloor>"
  have "of_int ?e \<le> log 10 x" by simp
  then have "10 powr of_int ?e \<le> 10 powr log 10 x"
    by (simp only: powr_le_cancel_iff)
  then have lo: "10 powr of_int ?e \<le> x"
    using assms by simp
  have "log 10 x < of_int ?e + 1" by linarith
  then have "10 powr log 10 x < 10 powr (of_int ?e + 1)"
    by (simp only: powr_less_cancel_iff)
  then have hi: "x < 10 * 10 powr of_int ?e"
    using assms by (simp add: powr_add)
  have pos: "0 < 10 powr (of_int ?e :: real)" by simp
  show "1 \<le> x / 10 powr of_int ?e"
    using lo pos by (simp add: le_divide_eq)
  show "x / 10 powr of_int ?e < 10"
    using hi pos by (simp add: divide_less_eq)
qed

lemma leading_digit_bounds:
  assumes "r \<noteq> 0"
  shows "1 \<le> \<lfloor>\<bar>r\<bar> / 10 powr of_int \<lfloor>log 10 \<bar>r\<bar>\<rfloor>\<rfloor>"
        "\<lfloor>\<bar>r\<bar> / 10 powr of_int \<lfloor>log 10 \<bar>r\<bar>\<rfloor>\<rfloor> \<le> 9"
  using mantissa_bounds [of "\<bar>r\<bar>"] assms by (simp_all add: le_floor_iff floor_le_iff)

lemma parseInt_num_integral:
  "js_eq (parseInt_num (Fin r)) (Fin r) \<longleftrightarrow> r \<in> \<int> \<and> \<bar>r\<bar> < 10 ^ 21"
proof (cases "r = 0")
  case True
  then show ?thesis by simp
next
  case nz: False
  show ?thesis
  proof (cases "1 / 10 ^ 6 \<le> \<bar>r\<bar> \<and> \<bar>r\<bar> < 10 ^ 21")
    case True
    then show ?thesis
      using nz by (simp add: js_trunc_integral)
  next
    case False
    define d where "d = \<lfloor>\<bar>r\<bar> / 10 powr of_int \<lfloor>log 10 \<bar>r\<bar>\<rfloor>\<rfloor>"
    have d: "1 \<le> d" "d \<le> 9"
      using leading_digit_bounds [OF nz] by (simp_all add: d_def)
    have "\<bar>sgn r * of_int d\<bar> = of_int d"
      using nz d by (simp add: abs_mult)
    then have abs: "sgn r * of_int d = r \<Longrightarrow> \<bar>r\<bar> = of_int d"
      by simp
    have ne: "sgn r * of_int d \<noteq> r"
    proof
      assume "sgn r * of_int d = r"
      then have "\<bar>r\<bar> = of_int d" by (rule abs)
      with d have "1 \<le> \<bar>r\<bar>" "\<bar>r\<bar> \<le> 9" by simp_all
      with False show False by simp
    qed
    have "\<not> (r \<in> \<int> \<and> \<bar>r\<bar> < 10 ^ 21)"
    proof
      assume a: "r \<in> \<int> \<and> \<bar>r\<bar> < 10 ^ 21"
      then obtain k where "r = of_int k" by (auto elim: Ints_cases)
      with nz have "1 \<le> \<bar>r\<bar>" by simp
      with a False show False by simp
    qed
    with ne False nz show ?thesis
      by (auto simp: d_def)
  qed
qed


text \<open>The print in exponent notation: \<^verbatim>\<open>parseInt(1e-7)\<close> is \<open>1\<close>.\<close>

lemma log_ten_million: "log 10 (1 / 10000000 :: real) = - 7"
proof -
  have "log 10 (10000000::real) = 7"
    using log_pow_cancel [of "10::real" 7] by simp
  then show ?thesis
    by (simp add: log_divide)
qed

lemma powr_minus_seven: "(10::real) powr of_int (- 7) = 1 / 10000000"
  by (simp only: powr_real_of_int) simp

lemma parseInt_num_small: "parseInt_num (Fin (1 / 10000000)) = Fin 1"
proof -
  have f: "\<lfloor>log 10 \<bar>1 / 10000000 :: real\<bar>\<rfloor> = - 7"
    using log_ten_million by simp
  have "\<bar>1 / 10000000 :: real\<bar> / 10 powr of_int \<lfloor>log 10 \<bar>1 / 10000000 :: real\<bar>\<rfloor> = 1"
    unfolding f powr_minus_seven by simp
  then have "\<lfloor>\<bar>1 / 10000000 :: real\<bar> / 10 powr of_int \<lfloor>log 10 \<bar>1 / 10000000 :: real\<bar>\<rfloor>\<rfloor> = 1"
    by (simp only: floor_one)
  then show ?thesis
    unfolding parseInt_num.simps by (simp del: abs_divide)
qed

text \<open>
  What the validator decides on two pieces in plain decimal notation: both integers from
  \<open>0\<close> up to, and without, the dimension count.
\<close>

lemma indices_validator_plain:
  "indices_validator n [plain i, plain j] \<longleftrightarrow>
     i \<in> \<int> \<and> j \<in> \<int> \<and> 0 \<le> i \<and> i < real n \<and> i < 10 ^ 21 \<and>
     0 \<le> j \<and> j < real n \<and> j < 10 ^ 21"
  unfolding indices_validator_def piece_pair
  by (auto simp: plain_read parseInt_num_integral simp del: parseInt_num.simps)

text \<open>
  An accepted text stores what \<^verbatim>\<open>parseInt\<close> reads from its pieces; a refused text leaves
  the component as it was.
\<close>

lemma set_indices_stored:
  assumes "indices_validator (n_lines s) nums"
  shows "index_x (state_of (set_indices nums s)) = parseInt (piece nums 0) \<and>
         index_y (state_of (set_indices nums s)) = parseInt (piece nums 1)"
  using assms update_indices_stored [of "parseInt (piece nums 0)" "parseInt (piece nums 1)" s]
  by (cases "update_indices (parseInt (piece nums 0)) (parseInt (piece nums 1)) s")
     (simp_all add: set_indices_def save_layout_def)

lemma set_indices_refused:
  "\<not> indices_validator (n_lines s) nums \<Longrightarrow> set_indices nums s = Returned s"
  by (simp add: set_indices_def)

lemma set_indices_throws:
  assumes "indices_validator (n_lines s) nums"
    and "\<not> returned (update_indices (parseInt (piece nums 0)) (parseInt (piece nums 1)) s)"
  shows "\<not> returned (set_indices nums s)"
  using assms
  by (cases "update_indices (parseInt (piece nums 0)) (parseInt (piece nums 1)) s")
     (simp_all add: set_indices_def)

lemma demo_two_throws:
  "\<not> returned (update_indices NaN iy (demo demo_axes 2 0 1))"
  "\<not> returned (update_indices (Fin 10) iy (demo demo_axes 2 0 1))"
  "\<not> returned (update_indices (Fin 5) iy (demo demo_axes 2 0 1))"
  by (simp_all add: update_indices_def demo_defs numeral_2_eq_2)

lemma demo_two_lines: "n_lines (demo demo_axes 2 0 1) = 2"
  by (simp add: demo_defs)

text \<open>
  Claim C3, where the code departs from it. With two dimensions, the text \<^verbatim>\<open>,\<close> of two
  empty pieces is accepted, since \<^verbatim>\<open>Number\<close> reads \<open>0\<close> from an empty piece; the handler
  stores what \<^verbatim>\<open>parseInt\<close> reads, \<^verbatim>\<open>NaN\<close> twice, and the redraw throws. The text
  \<^verbatim>\<open>10e-1,0\<close> is accepted, since \<^verbatim>\<open>Number\<close> reads \<open>1\<close>; the handler stores the index \<open>10\<close>
  that \<^verbatim>\<open>parseInt\<close> reads, and the redraw throws.
\<close>

theorem set_indices_misreads:
  "n_lines (demo demo_axes 2 0 1) = 2 \<and>
   indices_validator 2 [empty_piece, empty_piece] \<and>
   index_x (state_of (set_indices [empty_piece, empty_piece] (demo demo_axes 2 0 1))) = NaN \<and>
   index_y (state_of (set_indices [empty_piece, empty_piece] (demo demo_axes 2 0 1))) = NaN \<and>
   \<not> returned (set_indices [empty_piece, empty_piece] (demo demo_axes 2 0 1)) \<and>
   indices_validator 2 [exponent_piece, plain 0] \<and>
   index_x (state_of (set_indices [exponent_piece, plain 0] (demo demo_axes 2 0 1))) = Fin 10 \<and>
   index_y (state_of (set_indices [exponent_piece, plain 0] (demo demo_axes 2 0 1))) = Fin 0 \<and>
   \<not> returned (set_indices [exponent_piece, plain 0] (demo demo_axes 2 0 1)) \<and>
   index_x (demo demo_axes 2 0 1) = Fin 0 \<and> index_y (demo demo_axes 2 0 1) = Fin 1"
proof -
  have e: "indices_validator (n_lines (demo demo_axes 2 0 1)) [empty_piece, empty_piece]"
    by (simp add: demo_two_lines indices_validator_def piece_pair empty_piece_def)
  have x: "indices_validator (n_lines (demo demo_axes 2 0 1)) [exponent_piece, plain 0]"
    by (simp add: demo_two_lines indices_validator_def piece_pair exponent_piece_def
          plain_read js_trunc_def)
  have old: "index_x (demo demo_axes 2 0 1) = Fin 0 \<and> index_y (demo demo_axes 2 0 1) = Fin 1"
    by (simp add: demo_defs)
  have "\<not> returned (set_indices [empty_piece, empty_piece] (demo demo_axes 2 0 1))"
    by (rule set_indices_throws [OF e])
       (simp add: piece_pair empty_piece_def demo_two_throws)
  moreover have "\<not> returned (set_indices [exponent_piece, plain 0] (demo demo_axes 2 0 1))"
    by (rule set_indices_throws [OF x])
       (simp add: piece_pair exponent_piece_def demo_two_throws)
  ultimately show ?thesis
    using e x old set_indices_stored [OF e] set_indices_stored [OF x]
    by (simp add: demo_two_lines piece_pair empty_piece_def exponent_piece_def plain_read
          js_trunc_def)
qed

subsection \<open>Applying a persisted configuration\<close>

lemma update_range_indices:
  "index_x (state_of (update_range mn mx s)) = index_x s \<and>
   index_y (state_of (update_range mn mx s)) = index_y s"
  by (simp add: update_range_def Let_def on_resize_indices)

lemma update_layout_last:
  "update_layout config s = last (update_layout_steps config s)"
  by (simp add: update_layout_def update_layout_steps_def and_then_assoc)

lemma update_layout_indices:
  "index_x (state_of (update_layout config s)) = cfg_index_x config \<and>
   index_y (state_of (update_layout config s)) = cfg_index_y config"
  unfolding update_layout_def
proof (rule and_then_keeps)
  show "index_x (state_of (update_indices (cfg_index_x config) (cfg_index_y config) s))
          = cfg_index_x config \<and>
        index_y (state_of (update_indices (cfg_index_x config) (cfg_index_y config) s))
          = cfg_index_y config"
    by (rule update_indices_stored)
next
  fix s1 :: xyvalue
  assume "index_x s1 = cfg_index_x config \<and> index_y s1 = cfg_index_y config"
  then show "index_x (state_of (and_then (update_range (min_value config) (max_value config) s1)
                 (Component_update_layout config))) = cfg_index_x config \<and>
             index_y (state_of (and_then (update_range (min_value config) (max_value config) s1)
                 (Component_update_layout config))) = cfg_index_y config"
    using update_range_indices [of "min_value config" "max_value config" s1]
    by (cases "update_range (min_value config) (max_value config) s1")
       (simp_all add: Component_update_layout_def)
qed

lemma update_layout_domains:
  assumes "returned (update_indices (cfg_index_x config) (cfg_index_y config) s)"
  shows "domains (state_of (update_layout config s))
           = ((min_value config, max_value config), (min_value config, max_value config))"
proof -
  from assms obtain s1 where
    "update_indices (cfg_index_x config) (cfg_index_y config) s = Returned s1"
    by (cases "update_indices (cfg_index_x config) (cfg_index_y config) s") auto
  then have "update_layout config s =
      and_then (update_range (min_value config) (max_value config) s1)
        (Component_update_layout config)"
    by (simp add: update_layout_def)
  then show ?thesis
    using update_range_domains [of "min_value config" "max_value config" s1]
    by (cases "update_range (min_value config) (max_value config) s1")
       (simp_all add: Component_update_layout_def)
qed

text \<open>
  Claim C4, as amended. \<^verbatim>\<open>update_layout\<close> applies the indices first: its first statement
  is a redraw of the component with the new indices and the range it had, and after it
  the indices are the configuration's and the domains are the old ones. When that
  redraw returns, the range is applied next, and \<^verbatim>\<open>update_layout\<close> ends with the new
  indices and the new range.
\<close>

theorem update_layout_order:
  "update_layout config s = last (update_layout_steps config s) \<and>
   hd (update_layout_steps config s)
     = update (s\<lparr>index_x := cfg_index_x config, index_y := cfg_index_y config\<rparr>) \<and>
   index_x (state_of (hd (update_layout_steps config s))) = cfg_index_x config \<and>
   index_y (state_of (hd (update_layout_steps config s))) = cfg_index_y config \<and>
   domains (state_of (hd (update_layout_steps config s))) = domains s \<and>
   (returned (hd (update_layout_steps config s)) \<longrightarrow>
      index_x (state_of (update_layout config s)) = cfg_index_x config \<and>
      index_y (state_of (update_layout config s)) = cfg_index_y config \<and>
      domains (state_of (update_layout config s))
        = ((min_value config, max_value config), (min_value config, max_value config)))"
proof -
  have hd: "hd (update_layout_steps config s)
      = update_indices (cfg_index_x config) (cfg_index_y config) s"
    by (simp add: update_layout_steps_def)
  have "domains (state_of (update_indices (cfg_index_x config) (cfg_index_y config) s))
      = domains s"
    by (simp add: update_indices_def domains_update) (simp add: domains_def)
  then show ?thesis
    using update_layout_last [of config s] update_layout_indices [of config s]
      update_layout_domains [of config s]
      update_indices_stored [of "cfg_index_x config" "cfg_index_y config" s]
    by (simp add: hd) (simp add: update_indices_def)
qed

lemma demo_plot_state:
  "data_store demo_plot = \<lparr>data = [[1], [- 1]], stamps = [1]\<rparr>"
  "sim demo_plot = demo_sim"
  "index_x demo_plot = Fin 0" "index_y demo_plot = Fin 0"
  "axes2d demo_plot = demo_axes" "path_d demo_plot = []"
  "screen_width demo_plot = 200" "screen_height demo_plot = 100"
  by (simp_all add: demo_plot_def demo_defs numeral_2_eq_2)

lemma demo_first_redraw:
  "returned (update (demo_plot\<lparr>index_x := Fin 0, index_y := Fin 1\<rparr>)) \<and>
   path_d (state_of (update (demo_plot\<lparr>index_x := Fin 0, index_y := Fin 1\<rparr>)))
     = [(Fin 200, Fin 100)]"
  by (simp add: update_def demo_plot_state Let_def store_update_def get_shown_data_def
    in_window_def demo_sim_def line_def nth_opt_def demo_axes_def clear_invalid_def)

lemma demo_layout_fields:
  "cfg_index_x demo_layout = Fin 0" "cfg_index_y demo_layout = Fin 1"
  "min_value demo_layout = Fin (- 2)" "max_value demo_layout = Fin 2"
  by (simp_all add: demo_layout_def)

lemma demo_plot_domains: "domains demo_plot = ((Fin (- 1), Fin 1), (Fin (- 1), Fin 1))"
  by (simp add: domains_def demo_plot_state demo_axes_def)

lemma demo_first_state:
  "update (demo_plot\<lparr>index_x := Fin 0, index_y := Fin 1\<rparr>)
     = Returned (demo_plot\<lparr>index_x := Fin 0, index_y := Fin 1, path_d := [(Fin 200, Fin 100)],
         recent_circle := (recent_circle demo_plot)\<lparr>circle_cx := Fin 200, circle_cy := Fin 100\<rparr>\<rparr>)"
  apply (simp add: update_def demo_plot_state Let_def store_update_def get_shown_data_def
    in_window_def demo_sim_def line_def nth_opt_def demo_axes_def clear_invalid_def)
  apply (simp add: demo_plot_def demo_defs)
  done

lemma demo_final_path:
  "path_d (state_of (update_layout demo_layout demo_plot)) = [(Fin 150, Fin 75)]"
  apply (simp add: update_layout_def update_indices_def demo_layout_fields demo_first_state)
  apply (simp add: update_range_def Let_def on_resize_def demo_plot_state axes_on_resize_def
    demo_axes_def)
  apply (simp add: update_def demo_plot_state Let_def store_update_def get_shown_data_def
    in_window_def demo_sim_def line_def nth_opt_def demo_axes_def clear_invalid_def
    Component_update_layout_def)
  done

text \<open>
  Claim C4 as the specification states it fails on \<open>demo_plot\<close> and \<open>demo_layout\<close>:
  the first statement of \<^verbatim>\<open>update_layout\<close> returns after drawing the sample \<open>(1, -1)\<close> of
  the new indices at the pixel \<open>(200, 100)\<close> of the old range \<open>[-1, 1]\<close>, while the
  configuration's range is \<open>[-2, 2]\<close>, where the same sample is drawn at \<open>(150, 75)\<close> in
  the end.
\<close>

theorem update_layout_order_counterexample:
  "returned (hd (update_layout_steps demo_layout demo_plot)) \<and>
   index_x (state_of (hd (update_layout_steps demo_layout demo_plot))) = Fin 0 \<and>
   index_y (state_of (hd (update_layout_steps demo_layout demo_plot))) = Fin 1 \<and>
   domains (state_of (hd (update_layout_steps demo_layout demo_plot)))
     = ((Fin (- 1), Fin 1), (Fin (- 1), Fin 1)) \<and>
   path_d (state_of (hd (update_layout_steps demo_layout demo_plot))) = [(Fin 200, Fin 100)] \<and>
   (min_value demo_layout, max_value demo_layout) = (Fin (- 2), Fin 2) \<and>
   path_d (state_of (update_layout demo_layout demo_plot)) = [(Fin 150, Fin 75)]"
  using demo_first_redraw demo_plot_domains demo_final_path
  by (simp add: update_layout_steps_def update_indices_def demo_layout_fields
        domains_update [of "demo_plot\<lparr>index_x := Fin 0, index_y := Fin 1\<rparr>"] update_frame)
     (simp add: domains_def)

theorem update_layout_order_witness:
  "returned (hd (update_layout_steps demo_layout demo_plot)) \<and>
   index_x (state_of (update_layout demo_layout demo_plot)) = Fin 0 \<and>
   index_y (state_of (update_layout demo_layout demo_plot)) = Fin 1 \<and>
   domains (state_of (update_layout demo_layout demo_plot))
     = ((Fin (- 2), Fin 2), (Fin (- 2), Fin 2))"
proof -
  have "returned (hd (update_layout_steps demo_layout demo_plot))"
    using demo_first_redraw
    by (simp add: update_layout_steps_def update_indices_def demo_layout_fields)
  then show ?thesis
    using update_layout_order [of demo_layout demo_plot]
    by (auto simp: demo_layout_fields)
qed

lemma update_layout_throws:
  assumes "\<not> returned (update_indices (cfg_index_x config) (cfg_index_y config) s)"
  shows "\<not> returned (update_layout config s) \<and>
         domains (state_of (update_layout config s)) = domains s"
proof -
  from assms obtain s1 where
    t: "update_indices (cfg_index_x config) (cfg_index_y config) s = Threw s1"
    by (cases "update_indices (cfg_index_x config) (cfg_index_y config) s") auto
  then have "update_layout config s = Threw s1"
    by (simp add: update_layout_def)
  moreover have "domains s1 = domains s"
    using domains_update [of "s\<lparr>index_x := cfg_index_x config, index_y := cfg_index_y config\<rparr>"] t
    by (simp add: update_indices_def) (simp add: domains_def)
  ultimately show ?thesis
    by simp
qed

lemma update_indices_returns:
  assumes "length (data (data_store s)) \<le> 1 \<or>
     js_index (data (data_store s)) ix \<noteq> None \<and> js_index (data (data_store s)) iy \<noteq> None"
  shows "returned (update_indices ix iy s)"
  using assms unfolding update_indices_def
proof
  assume "length (data (data_store s)) \<le> 1"
  then have "length (data (data_store (s\<lparr>index_x := ix, index_y := iy\<rparr>))) \<le> 1"
    by simp
  from update_few_dimensions [OF this] show "returned (update (s\<lparr>index_x := ix, index_y := iy\<rparr>))"
    by simp
next
  assume "js_index (data (data_store s)) ix \<noteq> None \<and> js_index (data (data_store s)) iy \<noteq> None"
  then show "returned (update (s\<lparr>index_x := ix, index_y := iy\<rparr>))"
    by (intro update_returns) simp_all
qed

text \<open>
  Claim C10, as amended. \<^verbatim>\<open>update_range\<close> and \<^verbatim>\<open>update_indices\<close> check nothing:
  whatever the arguments, the bounds and both domains of the axes are the given range
  after \<^verbatim>\<open>update_range\<close>, and the stored indices are the given ones after
  \<^verbatim>\<open>update_indices\<close>. So \<^verbatim>\<open>update_layout\<close> stores the indices of any configuration. It
  applies the configuration's range, whatever it is, when the redraw with those indices
  returns, as it does when both indices are dimensions of the store or the component has
  fewer than two dimensions. When that redraw throws, \<^verbatim>\<open>update_layout\<close> throws and the
  domains are what they were.
\<close>

theorem updates_unvalidated:
  "domains (state_of (update_range mn mx s)) = ((mn, mx), (mn, mx)) \<and>
   min_val (axes2d (state_of (update_range mn mx s))) = mn \<and>
   max_val (axes2d (state_of (update_range mn mx s))) = mx \<and>
   index_x (state_of (update_indices ix iy s)) = ix \<and>
   index_y (state_of (update_indices ix iy s)) = iy \<and>
   index_x (state_of (update_layout config s)) = cfg_index_x config \<and>
   index_y (state_of (update_layout config s)) = cfg_index_y config \<and>
   (returned (update_indices (cfg_index_x config) (cfg_index_y config) s) \<longrightarrow>
      domains (state_of (update_layout config s))
        = ((min_value config, max_value config), (min_value config, max_value config))) \<and>
   (length (data (data_store s)) \<le> 1 \<or>
    js_index (data (data_store s)) (cfg_index_x config) \<noteq> None \<and>
    js_index (data (data_store s)) (cfg_index_y config) \<noteq> None \<longrightarrow>
      returned (update_indices (cfg_index_x config) (cfg_index_y config) s)) \<and>
   (\<not> returned (update_indices (cfg_index_x config) (cfg_index_y config) s) \<longrightarrow>
      \<not> returned (update_layout config s) \<and>
      domains (state_of (update_layout config s)) = domains s)"
  using update_range_domains [of mn mx s] update_range_bounds [of mn mx s]
    update_indices_stored [of ix iy s] update_layout_indices [of config s]
    update_layout_domains [of config s] update_layout_throws [of config s]
    update_indices_returns [of s "cfg_index_x config" "cfg_index_y config"]
  by blast

lemma odd_layout_fields:
  "cfg_index_x odd_layout = Fin 0" "cfg_index_y odd_layout = Fin 1"
  "min_value odd_layout = Fin 5" "max_value odd_layout = Fin 2"
  by (simp_all add: odd_layout_def)

lemma far_layout_fields:
  "cfg_index_x far_layout = Fin 5" "cfg_index_y far_layout = Fin 1"
  "min_value far_layout = Fin (- 2)" "max_value far_layout = Fin 2"
  by (simp_all add: far_layout_def)

lemma demo_two_domains:
  "domains (demo demo_axes 2 0 1) = ((Fin (- 1), Fin 1), (Fin (- 1), Fin 1))"
  by (simp add: domains_def demo_defs)

text \<open>
  Claim C10 as stated fails on a new component of two dimensions and \<open>far_layout\<close>:
  the index \<open>5\<close> is stored, the redraw throws on it although the window is empty, and
  the range \<open>[-2, 2]\<close> of the configuration is never applied.
\<close>

theorem updates_unvalidated_counterexample:
  "\<not> returned (update_layout far_layout (demo demo_axes 2 0 1)) \<and>
   index_x (state_of (update_layout far_layout (demo demo_axes 2 0 1))) = Fin 5 \<and>
   domains (state_of (update_layout far_layout (demo demo_axes 2 0 1)))
     = ((Fin (- 1), Fin 1), (Fin (- 1), Fin 1)) \<and>
   (min_value far_layout, max_value far_layout) = (Fin (- 2), Fin 2)"
  using update_layout_throws [of far_layout "demo demo_axes 2 0 1"]
    update_layout_indices [of far_layout "demo demo_axes 2 0 1"]
  by (simp add: far_layout_fields demo_two_throws demo_two_domains)

text \<open>
  On \<open>demo_plot\<close>, whose window holds a sample: \<open>odd_layout\<close> has indices that are read
  and a range from \<open>5\<close> down to \<open>2\<close>, which is applied; \<open>far_layout\<close> throws and leaves the
  range \<open>[-1, 1]\<close>.
\<close>

theorem updates_unvalidated_witness:
  "js_index (data (data_store demo_plot)) (Fin 0) \<noteq> None \<and>
   js_index (data (data_store demo_plot)) (Fin 1) \<noteq> None \<and>
   returned (update_indices (Fin 0) (Fin 1) demo_plot) \<and>
   \<not> range_validator [plain 5, plain 2] \<and>
   domains (state_of (update_layout odd_layout demo_plot)) = ((Fin 5, Fin 2), (Fin 5, Fin 2)) \<and>
   \<not> returned (update_indices (Fin 5) (Fin 1) demo_plot) \<and>
   \<not> returned (update_layout far_layout demo_plot) \<and>
   index_x (state_of (update_layout far_layout demo_plot)) = Fin 5 \<and>
   domains (state_of (update_layout far_layout demo_plot))
     = ((Fin (- 1), Fin 1), (Fin (- 1), Fin 1))"
proof -
  have i: "js_index (data (data_store demo_plot)) (Fin 0) \<noteq> None \<and>
      js_index (data (data_store demo_plot)) (Fin 1) \<noteq> None"
    by (simp add: demo_plot_state)
  have t: "\<not> returned (update_indices (Fin 5) (Fin 1) demo_plot)"
    by (simp add: update_indices_def update_def Let_def demo_plot_state store_update_def
          get_shown_data_def)
  have v: "\<not> range_validator [plain 5, plain 2]"
    by (simp add: range_validator_plain)
  show ?thesis
    using i t v demo_plot_domains
      updates_unvalidated [of "Fin 5" "Fin 2" demo_plot "Fin 0" "Fin 1" odd_layout]
      updates_unvalidated [of "Fin 5" "Fin 2" demo_plot "Fin 0" "Fin 1" far_layout]
    by (simp add: odd_layout_fields far_layout_fields)
qed

end
